theory Spec2Isabelle
  imports Main "HOL-Library.Sublist"
begin

section \<open>Python values\<close>

text \<open>
  The values that cross the tool boundary are what \<^verbatim>\<open>json.loads\<close> produces: \<^verbatim>\<open>None\<close>,
  booleans, unbounded integers, strings, lists and string-keyed dictionaries in insertion
  order. \<open>JNull\<close> is Python's \<^verbatim>\<open>None\<close>. Floating-point numbers are left out of the model.

  A HOL \<open>string\<close> stands for a Python \<^verbatim>\<open>str\<close> whose code points lie below 256, the
  character with code \<open>n\<close> being the code point \<open>n\<close>; the string methods below are the
  Python ones restricted to that range. A dictionary is an association list read with
  \<open>map_of\<close>; the dictionaries of a run have distinct keys.
\<close>

datatype json =
    JNull
  | JBool bool
  | JInt int
  | JStr string
  | JArr "json list"
  | JObj "(string \<times> json) list"

datatype exn =
    JSONDecodeError string
  | ValueError
  | AttributeError
  | TypeError

datatype 'a outcome =
    Returned 'a
  | Raised exn

text \<open>Truth value of an object, as \<^verbatim>\<open>if x\<close> and \<^verbatim>\<open>not x\<close> test it.\<close>

fun truthy :: "json \<Rightarrow> bool" where
  "truthy JNull = False"
| "truthy (JBool b) = b"
| "truthy (JInt n) = (n \<noteq> 0)"
| "truthy (JStr s) = (s \<noteq> [])"
| "truthy (JArr xs) = (xs \<noteq> [])"
| "truthy (JObj kvs) = (kvs \<noteq> [])"

text \<open>\<^verbatim>\<open>d.get(k, default)\<close> and \<^verbatim>\<open>d.get(k)\<close>; \<^verbatim>\<open>d[k] = v\<close> keeps the position of a present key.\<close>

definition dict_get_default :: "(string \<times> json) list \<Rightarrow> string \<Rightarrow> json \<Rightarrow> json" where
  "dict_get_default d k dflt = (case map_of d k of None \<Rightarrow> dflt | Some v \<Rightarrow> v)"

definition dict_get :: "(string \<times> json) list \<Rightarrow> string \<Rightarrow> json" where
  "dict_get d k = dict_get_default d k JNull"

fun dict_set :: "string \<Rightarrow> json \<Rightarrow> (string \<times> json) list \<Rightarrow> (string \<times> json) list" where
  "dict_set k v [] = [(k, v)]"
| "dict_set k v (kv # kvs) = (if fst kv = k then (k, v) # kvs else kv # dict_set k v kvs)"

text \<open>\<^verbatim>\<open>s.split(sep)\<close> for a one-character separator, and \<^verbatim>\<open>sep.join(xs)\<close>.\<close>

fun split_sep :: "char \<Rightarrow> string \<Rightarrow> string list" where
  "split_sep sep [] = [[]]"
| "split_sep sep (c # cs) =
     (if c = sep then [] # split_sep sep cs
      else (case split_sep sep cs of
              [] \<Rightarrow> [[c]]
            | w # ws \<Rightarrow> (c # w) # ws))"

fun join :: "string \<Rightarrow> string list \<Rightarrow> string" where
  "join sep [] = []"
| "join sep [x] = x"
| "join sep (x # y # ys) = x @ sep @ join sep (y # ys)"

text \<open>
  \<^verbatim>\<open>str.isdigit\<close> holds of a non-empty string of digit characters. Below 256 these are the
  ten decimal digits and the superscripts two, three and one (code points 178, 179 and
  185). \<^verbatim>\<open>int\<close> reads decimal digits only and raises \<^verbatim>\<open>ValueError\<close> on anything else; it is
  applied here to strings that passed \<^verbatim>\<open>isdigit\<close>, so signs, blanks and underscores do
  not arise. The interpreter's configurable bound on the length of a decimal literal is
  not modelled.
\<close>

definition decimal_char :: "char \<Rightarrow> bool" where
  "decimal_char c = (48 \<le> (of_char c :: nat) \<and> (of_char c :: nat) \<le> 57)"

definition digit_char :: "char \<Rightarrow> bool" where
  "digit_char c = (decimal_char c \<or> (of_char c :: nat) \<in> {178, 179, 185})"

definition isdigit :: "string \<Rightarrow> bool" where
  "isdigit s = (s \<noteq> [] \<and> list_all digit_char s)"

definition py_int :: "string \<Rightarrow> exn + nat" where
  "py_int s =
     (if s \<noteq> [] \<and> list_all decimal_char s
      then Inr (foldl (\<lambda>acc c. 10 * acc + (of_char c - 48)) 0 s)
      else Inl ValueError)"

text \<open>
  \<^verbatim>\<open>str.lower\<close>: below 256 the cased letters are \<open>A\<close> to \<open>Z\<close> and the code points 192 to
  222 except the multiplication sign 215; each moves up by 32.
\<close>

definition lower_char :: "char \<Rightarrow> char" where
  "lower_char c =
     (let n = (of_char c :: nat)
      in if (65 \<le> n \<and> n \<le> 90) \<or> (192 \<le> n \<and> n \<le> 222 \<and> n \<noteq> 215)
         then char_of (n + 32) else c)"

definition lower :: "string \<Rightarrow> string" where
  "lower s = map lower_char s"

text \<open>Decimal and hexadecimal numerals.\<close>

definition digit_of :: "nat \<Rightarrow> char" where
  "digit_of d = char_of (48 + d)"

fun str_nat :: "nat \<Rightarrow> string" where
  "str_nat n = (if n < 10 then [digit_of n] else str_nat (n div 10) @ [digit_of (n mod 10)])"

declare str_nat.simps [simp del]

definition str_int :: "int \<Rightarrow> string" where
  "str_int i = (if i < 0 then CHR ''-'' # str_nat (nat (- i)) else str_nat (nat i))"

definition hex_digit :: "nat \<Rightarrow> char" where
  "hex_digit d = (if d < 10 then char_of (48 + d) else char_of (87 + d))"

definition hex2 :: "char \<Rightarrow> string" where
  "hex2 c = [hex_digit ((of_char c :: nat) div 16), hex_digit ((of_char c :: nat) mod 16)]"

text \<open>
  \<^verbatim>\<open>repr\<close> of a string: single quotes unless the string holds a single and no double
  quote; the quote and the backslash are escaped, tab, newline and return have their
  letter escapes, and every other unprintable character is \<^verbatim>\<open>\xhh\<close>. \<^verbatim>\<open>str\<close> of a string
  is the string; \<^verbatim>\<open>str\<close> of any other value is its \<^verbatim>\<open>repr\<close>, which an f-string inserts too.
\<close>

definition repr_char :: "char \<Rightarrow> char \<Rightarrow> string" where
  "repr_char q c =
     (let n = (of_char c :: nat)
      in if c = q \<or> n = 92 then [CHR 0x5C, c]
         else if n = 9 then [CHR 0x5C, CHR ''t'']
         else if n = 10 then [CHR 0x5C, CHR ''n'']
         else if n = 13 then [CHR 0x5C, CHR ''r'']
         else if n < 32 \<or> n = 127 \<or> (128 \<le> n \<and> n \<le> 160) \<or> n = 173
           then [CHR 0x5C, CHR ''x''] @ hex2 c
         else [c])"

definition repr_str :: "string \<Rightarrow> string" where
  "repr_str s =
     (let q = (if CHR 0x27 \<in> set s \<and> CHR 0x22 \<notin> set s then CHR 0x22 else CHR 0x27)
      in q # concat (map (repr_char q) s) @ [q])"

fun py_repr :: "json \<Rightarrow> string" where
  "py_repr JNull = ''None''"
| "py_repr (JBool b) = (if b then ''True'' else ''False'')"
| "py_repr (JInt i) = str_int i"
| "py_repr (JStr s) = repr_str s"
| "py_repr (JArr xs) = ''['' @ join '', '' (map py_repr xs) @ '']''"
| "py_repr (JObj kvs) =
     ''{'' @ join '', '' (map (\<lambda>(k, v). repr_str k @ '': '' @ py_repr v) kvs) @ ''}''"

fun py_str :: "json \<Rightarrow> string" where
  "py_str (JStr s) = s"
| "py_str v = py_repr v"

text \<open>
  \<^verbatim>\<open>json.dumps\<close> with its default separators and \<^verbatim>\<open>ensure_ascii\<close>: inside a string the
  double quote and the backslash are escaped, newline, return, tab, backspace and form
  feed have their letter escapes, and every other character outside the printable ASCII
  range is \<^verbatim>\<open>\u00hh\<close>.
\<close>

definition dumps_char :: "char \<Rightarrow> string" where
  "dumps_char c =
     (let n = (of_char c :: nat)
      in if n = 34 then [CHR 0x5C, CHR 0x22]
         else if n = 92 then [CHR 0x5C, CHR 0x5C]
         else if n = 10 then [CHR 0x5C, CHR ''n'']
         else if n = 13 then [CHR 0x5C, CHR ''r'']
         else if n = 9 then [CHR 0x5C, CHR ''t'']
         else if n = 8 then [CHR 0x5C, CHR ''b'']
         else if n = 12 then [CHR 0x5C, CHR ''f'']
         else if n < 32 \<or> 127 \<le> n then [CHR 0x5C, CHR ''u'', CHR ''0'', CHR ''0''] @ hex2 c
         else [c])"

definition dumps_str :: "string \<Rightarrow> string" where
  "dumps_str s = CHR 0x22 # concat (map dumps_char s) @ [CHR 0x22]"

fun json_dumps :: "json \<Rightarrow> string" where
  "json_dumps JNull = ''null''"
| "json_dumps (JBool b) = (if b then ''true'' else ''false'')"
| "json_dumps (JInt i) = str_int i"
| "json_dumps (JStr s) = dumps_str s"
| "json_dumps (JArr xs) = ''['' @ join '', '' (map json_dumps xs) @ '']''"
| "json_dumps (JObj kvs) =
     ''{'' @ join '', '' (map (\<lambda>(k, v). dumps_str k @ '': '' @ json_dumps v) kvs) @ ''}''"

section \<open>Dotted-path access\<close>

text \<open>
  Source: \<^verbatim>\<open>src/api_agent/agent/rest_agent.py\<close>, function \<^verbatim>\<open>_get_nested_value\<close>.
  \<open>get_nested_loop\<close> is its \<^verbatim>\<open>for key in keys\<close> loop, with \<open>current\<close> as the loop variable;
  the result \<open>JNull\<close> is the \<^verbatim>\<open>None\<close> the function returns for a value it does not find.
\<close>

fun get_nested_loop :: "json \<Rightarrow> string list \<Rightarrow> exn + json" where
  "get_nested_loop current [] = Inr current"
| "get_nested_loop current (key # keys) =
     (case current of
        JArr xs \<Rightarrow>
          if isdigit key then
            (case py_int key of
               Inl e \<Rightarrow> Inl e
             | Inr idx \<Rightarrow>
                 if idx < length xs then
                   (if xs ! idx = JNull then Inr JNull else get_nested_loop (xs ! idx) keys)
                 else Inr JNull)
          else Inr JNull
      | JObj kvs \<Rightarrow>
          (if dict_get kvs key = JNull then Inr JNull
           else get_nested_loop (dict_get kvs key) keys)
      | _ \<Rightarrow> Inr JNull)"

definition get_nested_value :: "json \<Rightarrow> string \<Rightarrow> exn + json" where
  "get_nested_value data path =
     (if \<not> truthy data \<or> path = [] then Inr JNull
      else get_nested_loop data (split_sep (CHR ''.'') path))"

section \<open>Requests, the call log and the session\<close>

text \<open>
  Source: \<^verbatim>\<open>src/api_agent/agent/rest_agent.py\<close>.

  \<^verbatim>\<open>execute_request\<close> is the injected request capability. What it answers may depend on
  everything the tool has done to the outside world so far, so the model keeps that
  history as a trace of events (requests sent and delays slept) and the capability reads
  the trace before the request. The base URL, the headers and the allow-list bound into
  the tool are fixed for its lifetime and are part of the capability. A response is the
  dictionary the capability returns.

  The session holds the context-local storage: the call log \<^verbatim>\<open>_rest_calls\<close>, the dataset
  registry \<^verbatim>\<open>_query_results\<close> and the cell \<^verbatim>\<open>_last_result\<close>. Each is \<open>None\<close> while its
  context variable is unset, in which case reading it raises the \<^verbatim>\<open>LookupError\<close> that the
  tools catch.

  The parser \<^verbatim>\<open>json.loads\<close> (\<open>Inl\<close> is the message of its \<^verbatim>\<open>JSONDecodeError\<close>), the two
  executor functions imported from \<^verbatim>\<open>api_agent/executor.py\<close> and the two settings are
  parameters, collected in \<open>deps\<close>. Debug logging is left out.
\<close>

record request =
  req_method :: string
  req_path :: string
  req_path_params :: json
  req_query_params :: json
  req_body :: json

datatype event =
    Request request
  | Sleep int

type_synonym response = "(string \<times> json) list"

datatype call_record =
    RestCall string string string string string
  | PollCall string string string int

record session =
  trace :: "event list"
  rest_calls :: "call_record list option"
  query_results :: "(string \<rightharpoonup> json) option"
  last_result :: "json option"

record ('s, 't) deps =
  json_loads :: "string \<Rightarrow> string + json"
  execute_request :: "event list \<Rightarrow> request \<Rightarrow> response"
  extract_tables_from_response :: "json \<Rightarrow> string \<Rightarrow> (string \<rightharpoonup> json) \<times> 's option"
  truncate_for_context :: "json list \<Rightarrow> string \<Rightarrow> 't"
  MAX_POLLS :: int
  DEFAULT_POLL_DELAY_MS :: int

definition loads_or :: "('s, 't) deps \<Rightarrow> string \<Rightarrow> json \<Rightarrow> string + json" where
  "loads_or d text dflt = (if text \<noteq> [] then json_loads d text else Inr dflt)"

definition send :: "('s, 't) deps \<Rightarrow> request \<Rightarrow> session \<Rightarrow> response \<times> session" where
  "send d req s = (execute_request d (trace s) req, s\<lparr>trace := trace s @ [Request req]\<rparr>)"

definition sleep :: "int \<Rightarrow> session \<Rightarrow> session" where
  "sleep ms s = s\<lparr>trace := trace s @ [Sleep ms]\<rparr>"

definition track :: "call_record \<Rightarrow> session \<Rightarrow> session" where
  "track c s = s\<lparr>rest_calls := map_option (\<lambda>calls. calls @ [c]) (rest_calls s)\<rparr>"

definition tables_get :: "(string \<rightharpoonup> json) \<Rightarrow> string \<Rightarrow> json" where
  "tables_get tables nm = (case tables nm of None \<Rightarrow> JNull | Some v \<Rightarrow> v)"

definition store_tables :: "(string \<rightharpoonup> json) \<Rightarrow> string \<Rightarrow> session \<Rightarrow> session" where
  "store_tables tables nm s =
     (case query_results s of
        None \<Rightarrow> s
      | Some results \<Rightarrow>
          (let s1 = s\<lparr>query_results := Some (results ++ tables)\<rparr>
           in if tables_get tables nm \<noteq> JNull
              then s1\<lparr>last_result := map_option (\<lambda>_. tables_get tables nm) (last_result s1)\<rparr>
              else s1))"

text \<open>
  The increment at the end of the loop body:
  \<^verbatim>\<open>if body_dict.get("polling", {}).get("count") is not None: body_dict["polling"]["count"] += 1\<close>.
  \<^verbatim>\<open>.get\<close> on anything but a dictionary raises \<^verbatim>\<open>AttributeError\<close>; adding 1 to a string, a
  list or a dictionary raises \<^verbatim>\<open>TypeError\<close>; a boolean counts as 0 or 1.
\<close>

definition bump_polling_count :: "json \<Rightarrow> exn + json" where
  "bump_polling_count body_dict =
     (case body_dict of
        JObj kvs \<Rightarrow>
          (case dict_get_default kvs ''polling'' (JObj []) of
             JObj pkvs \<Rightarrow>
               (case dict_get pkvs ''count'' of
                  JNull \<Rightarrow> Inr body_dict
                | JInt n \<Rightarrow>
                    Inr (JObj (dict_set ''polling'' (JObj (dict_set ''count'' (JInt (n + 1)) pkvs)) kvs))
                | JBool b \<Rightarrow>
                    Inr (JObj (dict_set ''polling''
                      (JObj (dict_set ''count'' (JInt ((if b then 1 else 0) + 1)) pkvs)) kvs))
                | _ \<Rightarrow> Inl TypeError)
           | _ \<Rightarrow> Inl AttributeError)
      | _ \<Rightarrow> Inl AttributeError)"

section \<open>The polling tool\<close>

text \<open>
  The tool returns \<^verbatim>\<open>json.dumps\<close> of a dictionary; \<open>poll_result\<close> is that dictionary:
  \<open>InvalidBody error\<close>, \<open>RequestFailed error attempt\<close> and \<open>FieldMissing error\<close> and
  \<open>Exhausted error attempts\<close> have \<^verbatim>\<open>success\<close> false, \<open>Done view attempts\<close> has it true and
  carries the fields of the truncated view. \<open>poll_attempt\<close> is the body of the
  \<^verbatim>\<open>while\<close> loop for one attempt: it stops the tool with an outcome or hands the next
  iteration the request body and the value of \<^verbatim>\<open>current\<close>. The delay is recorded in
  milliseconds.
\<close>

datatype 't poll_result =
    InvalidBody string
  | RequestFailed json int
  | FieldMissing string
  | Done 't int
  | Exhausted string int

datatype 't poll_step =
    Stop "'t poll_result outcome"
  | Next json json

record poll_args =
  p_method :: string
  p_path :: string
  p_done_field :: string
  p_done_value :: string
  p_pp :: json
  p_qp :: json
  p_name :: string
  p_wait_ms :: int

definition field_missing_error :: "string \<Rightarrow> json \<Rightarrow> string" where
  "field_missing_error field data =
     ''done_field '' @ [CHR 0x27] @ field @ [CHR 0x27]
       @ '' not found in response. Available keys: ''
       @ py_repr (JArr (case data of JObj kvs \<Rightarrow> map (JStr \<circ> fst) kvs | _ \<Rightarrow> []))"

definition exhausted_error :: "int \<Rightarrow> string \<Rightarrow> json \<Rightarrow> string \<Rightarrow> string" where
  "exhausted_error max_polls field current expected =
     ''max_polls ('' @ str_int max_polls @ '') exceeded. Last '' @ field @ '' value: ''
       @ py_str current @ '' (expected: '' @ expected @ '')''"

text \<open>
  The keyword arguments of the call of \<^verbatim>\<open>execute_request\<close> in the loop: an empty (falsy)
  body is sent as \<^verbatim>\<open>None\<close>.
\<close>

definition poll_request :: "poll_args \<Rightarrow> json \<Rightarrow> request" where
  "poll_request a body_dict =
     \<lparr>req_method = p_method a, req_path = p_path a, req_path_params = p_pp a,
      req_query_params = p_qp a,
      req_body = (if truthy body_dict then body_dict else JNull)\<rparr>"

text \<open>\<^verbatim>\<open>data if isinstance(data, list) else [data]\<close>, the rows handed to the truncator.\<close>

definition as_rows :: "json \<Rightarrow> json list" where
  "as_rows data = (case data of JArr xs \<Rightarrow> xs | _ \<Rightarrow> [data])"

text \<open>The record appended to the call log for an attempt.\<close>

definition poll_record :: "poll_args \<Rightarrow> int \<Rightarrow> json \<Rightarrow> call_record" where
  "poll_record a attempt body_dict =
     PollCall (p_method a) (p_path a)
       (if truthy body_dict then json_dumps body_dict else []) attempt"

definition poll_attempt ::
  "('s, 't) deps \<Rightarrow> poll_args \<Rightarrow> int \<Rightarrow> json \<Rightarrow> session \<Rightarrow> 't poll_step \<times> session" where
  "poll_attempt d a attempt body_dict s =
     (let (result, s1) = send d (poll_request a body_dict) s;
          s2 = track (poll_record a attempt body_dict) s1
      in if \<not> truthy (dict_get result ''success'')
         then (Stop (Returned (RequestFailed (dict_get result ''error'') attempt)), s2)
         else
           (let data = dict_get_default result ''data'' (JObj [])
            in case get_nested_value data (p_done_field a) of
                 Inl e \<Rightarrow> (Stop (Raised e), s2)
               | Inr current \<Rightarrow>
                   if current = JNull \<and> attempt = 1
                   then (Stop (Returned (FieldMissing (field_missing_error (p_done_field a) data))), s2)
                   else if lower (py_str current) = lower (p_done_value a)
                   then (Stop (Returned (Done
                           (truncate_for_context d (as_rows data) (p_name a))
                           attempt)),
                         store_tables (fst (extract_tables_from_response d data (p_name a))) (p_name a) s2)
                   else
                     (case bump_polling_count body_dict of
                        Inl e \<Rightarrow> (Stop (Raised e), sleep (p_wait_ms a) s2)
                      | Inr body' \<Rightarrow> (Next body' current, sleep (p_wait_ms a) s2))))"

function poll_loop ::
  "('s, 't) deps \<Rightarrow> poll_args \<Rightarrow> int \<Rightarrow> json \<Rightarrow> json \<Rightarrow> session
     \<Rightarrow> 't poll_result outcome \<times> session" where
  "poll_loop d a attempt body_dict current s =
     (if attempt < MAX_POLLS d then
        (case poll_attempt d a (attempt + 1) body_dict s of
           (Stop out, s') \<Rightarrow> (out, s')
         | (Next body' current', s') \<Rightarrow> poll_loop d a (attempt + 1) body' current' s')
      else
        (Returned (Exhausted
           (exhausted_error (MAX_POLLS d) (p_done_field a) current (p_done_value a)) attempt), s))"
  by pat_completeness auto
termination
  by (relation "measure (\<lambda>(d, a, attempt, body_dict, current, s). nat (MAX_POLLS d - attempt))") auto

declare poll_loop.simps [simp del]

definition poll_until_done ::
  "('s, 't) deps \<Rightarrow> string \<Rightarrow> string \<Rightarrow> string \<Rightarrow> string \<Rightarrow> string \<Rightarrow> string \<Rightarrow> string
     \<Rightarrow> string \<Rightarrow> int \<Rightarrow> session \<Rightarrow> 't poll_result outcome \<times> session" where
  "poll_until_done d method' path' done_field' done_value' body path_params query_params
       name' delay_ms s =
     (case loads_or d path_params JNull of
        Inl msg \<Rightarrow> (Raised (JSONDecodeError msg), s)
      | Inr pp' \<Rightarrow>
          (case loads_or d query_params JNull of
             Inl msg \<Rightarrow> (Raised (JSONDecodeError msg), s)
           | Inr qp' \<Rightarrow>
               (case loads_or d body (JObj []) of
                  Inl msg \<Rightarrow> (Returned (InvalidBody (''Invalid body JSON: '' @ msg)), s)
                | Inr body_dict \<Rightarrow>
                    poll_loop d
                      \<lparr>p_method = method', p_path = path', p_done_field = done_field',
                       p_done_value = done_value', p_pp = pp', p_qp = qp', p_name = name',
                       p_wait_ms = (if delay_ms > 0 then delay_ms else DEFAULT_POLL_DELAY_MS d)\<rparr>
                      0 body_dict JNull s)))"

section \<open>The request tool\<close>

text \<open>
  \<open>rest_result\<close> is the dictionary \<^verbatim>\<open>rest_call\<close> serialises: the schema summary of a wrapped
  single object, the truncated view of a list, or the response itself (with a hint after
  a failure whose status code is at least 400).
\<close>

datatype ('s, 't) rest_result =
    SchemaInfo string 's
  | Truncated 't
  | Raw response

definition status_ge_400 :: "json \<Rightarrow> exn + bool" where
  "status_ge_400 status =
     (case status of
        JInt n \<Rightarrow> Inr (n \<ge> 400)
      | JBool b \<Rightarrow> Inr False
      | _ \<Rightarrow> Inl TypeError)"

definition rest_call ::
  "('s, 't) deps \<Rightarrow> string \<Rightarrow> string \<Rightarrow> string \<Rightarrow> string \<Rightarrow> string \<Rightarrow> string \<Rightarrow> session
     \<Rightarrow> ('s, 't) rest_result outcome \<times> session" where
  "rest_call d method path path_params query_params body nm s =
     (case loads_or d path_params JNull of
        Inl msg \<Rightarrow> (Raised (JSONDecodeError msg), s)
      | Inr pp \<Rightarrow>
     (case loads_or d query_params JNull of
        Inl msg \<Rightarrow> (Raised (JSONDecodeError msg), s)
      | Inr qp \<Rightarrow>
     (case loads_or d body JNull of
        Inl msg \<Rightarrow> (Raised (JSONDecodeError msg), s)
      | Inr bd \<Rightarrow>
          (let (result, s1) = send d
                 \<lparr>req_method = method, req_path = path, req_path_params = pp,
                  req_query_params = qp, req_body = bd\<rparr> s;
               s2 = track (RestCall method path path_params query_params body) s1;
               success = truthy (dict_get result ''success'');
               stores = (success \<and> query_results s2 \<noteq> None);
               extracted = extract_tables_from_response d
                             (dict_get_default result ''data'' (JObj [])) nm;
               schema_info = (if stores then snd extracted else None);
               stored_data = (if stores then tables_get (fst extracted) nm else JNull);
               s3 = (if stores then store_tables (fst extracted) nm s2 else s2)
           in case (if success \<and> truthy stored_data then schema_info else None) of
                Some info \<Rightarrow> (Returned (SchemaInfo nm info), s3)
              | None \<Rightarrow>
                  (case (if success \<and> truthy stored_data then stored_data else JNull) of
                     JArr rows \<Rightarrow> (Returned (Truncated (truncate_for_context d rows nm)), s3)
                   | _ \<Rightarrow>
                       if success then (Returned (Raw result), s3)
                       else
                         (case status_ge_400 (dict_get_default result ''status_code'' (JInt 0)) of
                            Inl e \<Rightarrow> (Raised e, s3)
                          | Inr True \<Rightarrow>
                              (Returned (Raw (dict_set ''hint''
                                 (JStr ''Use search_schema to find valid enum values or field names'')
                                 result)), s3)
                          | Inr False \<Rightarrow> (Returned (Raw result), s3)))))))"

section \<open>Table extraction and context truncation\<close>

text \<open>
  The module \<^verbatim>\<open>api_agent/executor.py\<close> is not among the sources; only its tests
  (\<^verbatim>\<open>src/tests/test_executor.py\<close>) and its callers are. The three definitions of this
  section follow the specification's sections 4.1 to 4.3. The analytical engine that
  infers column types and the wording of the two hints are outside the specification's
  core and are parameters, collected in \<open>engine\<close>. A dataset is a list of records, its
  serialized size the length of its \<^verbatim>\<open>json.dumps\<close> text, as the tests measure it.
\<close>

record engine =
  column_types :: "json list \<Rightarrow> (string \<times> string) list"
  table_hint :: "string \<Rightarrow> string"
  more_rows_hint :: "string \<Rightarrow> string"

record summary =
  sum_rows :: nat
  sum_schema :: string
  sum_hint :: string

record context_view =
  cv_truncated :: bool
  cv_table :: string
  cv_rows :: nat
  cv_data :: "json list"
  cv_showing :: "nat option"
  cv_schema :: "string option"
  cv_hint :: "string option"

text \<open>
  Modelled from the spec: \<^verbatim>\<open>get_table_schema_summary\<close> of \<^verbatim>\<open>api_agent/executor.py\<close> is
  missing. Section 4.2: an empty dataset has \<open>rows = 0\<close> and an empty schema; otherwise
  the schema lists \<open>col_name TYPE\<close> for every column, \<open>rows\<close> is the record count, and the
  hint refers to the dataset by name.
\<close>

definition summarize_spec :: "engine \<Rightarrow> json list \<Rightarrow> string \<Rightarrow> summary" where
  "summarize_spec e dataset nm =
     \<lparr>sum_rows = length dataset,
      sum_schema = (if dataset = [] then []
                    else join '', '' (map (\<lambda>(c, ty). c @ '' '' @ ty) (column_types e dataset))),
      sum_hint = table_hint e nm\<rparr>"

text \<open>
  Modelled from the spec: \<^verbatim>\<open>extract_tables_from_response\<close> of \<^verbatim>\<open>api_agent/executor.py\<close> is
  missing. Section 4.1: a sequence is the dataset; a mapping gives the first of its direct
  values that is a sequence, in the mapping's order, or, when it has none, itself wrapped
  as one record together with a summary; any other value gives an empty registry.
\<close>

fun is_sequence :: "json \<Rightarrow> bool" where
  "is_sequence (JArr rows) = True"
| "is_sequence v = False"

definition extract_spec ::
  "engine \<Rightarrow> json \<Rightarrow> string \<Rightarrow> (string \<rightharpoonup> json) \<times> summary option" where
  "extract_spec e response nm =
     (case response of
        JArr rows \<Rightarrow> ([nm \<mapsto> JArr rows], None)
      | JObj kvs \<Rightarrow>
          (case filter is_sequence (map snd kvs) of
             seq # others \<Rightarrow> ([nm \<mapsto> seq], None)
           | [] \<Rightarrow> ([nm \<mapsto> JArr [response]], Some (summarize_spec e [response] nm)))
      | _ \<Rightarrow> (Map.empty, None))"

text \<open>
  Modelled from the spec: \<^verbatim>\<open>truncate_for_context\<close> of \<^verbatim>\<open>api_agent/executor.py\<close> is missing.
  Section 4.3: a dataset whose serialized size is at most \<open>max_chars\<close> is returned whole;
  otherwise records are accumulated in order while the serialized size of what has been
  accumulated stays within \<open>max_chars\<close>, and the view carries the number of records shown,
  the schema of the summary of the full dataset and a hint.
\<close>

definition serialized_size :: "json list \<Rightarrow> int" where
  "serialized_size dataset = int (length (json_dumps (JArr dataset)))"

fun scan_rows :: "int \<Rightarrow> json list \<Rightarrow> json list \<Rightarrow> json list" where
  "scan_rows max_chars acc [] = acc"
| "scan_rows max_chars acc (r # rs) =
     (if serialized_size (acc @ [r]) \<le> max_chars then scan_rows max_chars (acc @ [r]) rs
      else acc)"

definition truncate_spec :: "engine \<Rightarrow> json list \<Rightarrow> string \<Rightarrow> int \<Rightarrow> context_view" where
  "truncate_spec e dataset nm max_chars =
     (if serialized_size dataset \<le> max_chars then
        \<lparr>cv_truncated = False, cv_table = nm, cv_rows = length dataset, cv_data = dataset,
         cv_showing = None, cv_schema = None, cv_hint = None\<rparr>
      else
        \<lparr>cv_truncated = True, cv_table = nm, cv_rows = length dataset,
         cv_data = scan_rows max_chars [] dataset,
         cv_showing = Some (length (scan_rows max_chars [] dataset)),
         cv_schema = Some (sum_schema (summarize_spec e dataset nm)),
         cv_hint = Some (more_rows_hint e nm)\<rparr>)"

text \<open>An engine for the examples: it reports no columns and uses the name as hint.\<close>

definition example_engine :: engine where
  "example_engine =
     \<lparr>column_types = (\<lambda>rows. []), table_hint = (\<lambda>nm. nm), more_rows_hint = (\<lambda>nm. nm)\<rparr>"

section \<open>Observations of a run\<close>

text \<open>
  Names for what the statements below speak of: the response the capability gives to the
  request of the attempt that starts in session \<open>s\<close> with request body \<open>body_dict\<close>, the
  data of that response, and the session once the request has been sent and the attempt
  logged.
\<close>

definition attempt_response :: "('s, 't) deps \<Rightarrow> poll_args \<Rightarrow> json \<Rightarrow> session \<Rightarrow> response" where
  "attempt_response d a body_dict s = execute_request d (trace s) (poll_request a body_dict)"

definition attempt_data :: "('s, 't) deps \<Rightarrow> poll_args \<Rightarrow> json \<Rightarrow> session \<Rightarrow> json" where
  "attempt_data d a body_dict s =
     dict_get_default (attempt_response d a body_dict s) ''data'' (JObj [])"

definition attempt_logged :: "poll_args \<Rightarrow> int \<Rightarrow> json \<Rightarrow> session \<Rightarrow> session" where
  "attempt_logged a attempt body_dict s =
     track (poll_record a attempt body_dict)
       (s\<lparr>trace := trace s @ [Request (poll_request a body_dict)]\<rparr>)"

text \<open>The requests of a trace, in order, and the shape of a poll's trace: requests
  separated by one delay each.\<close>

fun requests :: "event list \<Rightarrow> request list" where
  "requests [] = []"
| "requests (Request r # es) = r # requests es"
| "requests (Sleep ms # es) = requests es"

fun alternates :: "event list \<Rightarrow> bool" where
  "alternates [] = True"
| "alternates [Request r] = True"
| "alternates (Request r # Sleep ms # es) = alternates es"
| "alternates es = False"

text \<open>The request body with its counter \<^verbatim>\<open>polling.count\<close> set to \<open>c\<close>, everything else
  as it is.\<close>

definition with_polling_count :: "int \<Rightarrow> json \<Rightarrow> json" where
  "with_polling_count c body_dict =
     (case body_dict of
        JObj kvs \<Rightarrow>
          (case dict_get kvs ''polling'' of
             JObj pkvs \<Rightarrow>
               JObj (dict_set ''polling'' (JObj (dict_set ''count'' (JInt c) pkvs)) kvs)
           | _ \<Rightarrow> body_dict)
      | _ \<Rightarrow> body_dict)"

section \<open>Example sessions and request capabilities\<close>

text \<open>
  The session as \<^verbatim>\<open>process_rest_query\<close> resets it, and the request capabilities that the
  tests in \<^verbatim>\<open>src/tests/test_poll_tool.py\<close> patch in: \<open>flights_mock\<close> counts its calls and
  answers \<^verbatim>\<open>retry.next\<close> 2, 1, 0; \<open>completed_mock\<close> reports completion from its third call
  on; \<open>pending_mock\<close> never completes; \<open>status_mock\<close> is complete at once, with a
  capitalised status text and a boolean; \<open>no_field_mock\<close> has no \<^verbatim>\<open>polling\<close> key;
  \<open>refused_mock\<close> fails; \<open>vanishing_mock\<close> has the field \<^verbatim>\<open>state\<close> in its first answer only.
  \<open>example_deps\<close> supplies the remaining dependencies: the executor as modelled above, a
  budget of 32000 characters, and a parser that knows the one document \<open>count_body\<close>.
  \<open>text_count_body\<close> is a request body whose \<^verbatim>\<open>polling.count\<close> is a text, not a number.
\<close>

definition fresh_session :: session where
  "fresh_session =
     \<lparr>trace = [], rest_calls = Some [], query_results = Some Map.empty,
      last_result = Some JNull\<rparr>"

definition example_args :: "string \<Rightarrow> string \<Rightarrow> poll_args" where
  "example_args field expected =
     \<lparr>p_method = ''POST'', p_path = ''/search/flights'', p_done_field = field,
      p_done_value = expected, p_pp = JNull, p_qp = JNull, p_name = ''poll_result'',
      p_wait_ms = 1\<rparr>"

definition flights_data :: "int \<Rightarrow> json" where
  "flights_data call_count =
     JObj [(''retry'', JObj [(''next'', JInt (max 0 (3 - call_count)))]), (''trips'', JArr [])]"

definition flights_mock :: "event list \<Rightarrow> request \<Rightarrow> response" where
  "flights_mock tr req =
     [(''success'', JBool True), (''data'', flights_data (int (length (requests tr)) + 1))]"

definition completed_mock :: "event list \<Rightarrow> request \<Rightarrow> response" where
  "completed_mock tr req =
     [(''success'', JBool True),
      (''data'', JObj [(''polling'',
         JObj [(''completed'', JBool (3 \<le> length (requests tr) + 1))])])]"

definition pending_mock :: "event list \<Rightarrow> request \<Rightarrow> response" where
  "pending_mock tr req =
     [(''success'', JBool True), (''data'', JObj [(''polling'', JObj [(''completed'', JBool False)])])]"

definition no_field_mock :: "event list \<Rightarrow> request \<Rightarrow> response" where
  "no_field_mock tr req =
     [(''success'', JBool True),
      (''data'', JObj [(''status'', JStr ''pending''), (''results'', JArr [])])]"

definition status_mock :: "event list \<Rightarrow> request \<Rightarrow> response" where
  "status_mock tr req =
     [(''success'', JBool True),
      (''data'', JObj [(''status'', JStr ''Completed''), (''done'', JBool True)])]"


definition vanishing_mock :: "event list \<Rightarrow> request \<Rightarrow> response" where
  "vanishing_mock tr req =
     [(''success'', JBool True),
      (''data'', if requests tr = [] then JObj [(''state'', JStr ''running'')]
                 else JObj [(''id'', JInt 7)])]"

definition count_body :: json where
  "count_body = JObj [(''polling'', JObj [(''count'', JInt 1)])]"


definition query_body :: json where
  "query_body = JObj [(''query'', JStr ''test'')]"

definition example_loads :: "string \<Rightarrow> string + json" where
  "example_loads text =
     (if text = json_dumps count_body then Inr count_body else Inl ''Expecting value'')"

definition example_deps ::
  "(event list \<Rightarrow> request \<Rightarrow> response) \<Rightarrow> int \<Rightarrow> (summary, context_view) deps" where
  "example_deps exec max_polls =
     \<lparr>json_loads = example_loads, execute_request = exec,
      extract_tables_from_response = extract_spec example_engine,
      truncate_for_context = (\<lambda>rows nm. truncate_spec example_engine rows nm 32000),
      MAX_POLLS = max_polls, DEFAULT_POLL_DELAY_MS = 3000\<rparr>"

section \<open>GraphQL type-reference folding\<close>

text \<open>
  Source: \<^verbatim>\<open>src/api_agent/agent/graphql_agent.py\<close>, function \<^verbatim>\<open>_format_type\<close>.

  An introspection type reference is a dictionary read only through
  \<^verbatim>\<open>t.get("kind")\<close>, \<^verbatim>\<open>t.get("name")\<close> and \<^verbatim>\<open>t.get("ofType")\<close>, each of which is
  \<^verbatim>\<open>None\<close> for an absent key as for a null value. \<open>NoRef\<close> stands for the two falsy
  arguments, \<^verbatim>\<open>None\<close> and the empty dictionary; \<open>Ref\<close> carries the three lookups of a
  non-empty dictionary, the inner reference being \<open>NoRef\<close> when \<^verbatim>\<open>ofType\<close> is absent,
  null or empty.
\<close>

datatype type_ref =
    NoRef
  | Ref "string option" "string option" type_ref

fun format_type :: "type_ref \<Rightarrow> string" where
  "format_type NoRef = ''?''"
| "format_type (Ref k n inner) =
     (if k = Some ''NON_NULL'' then format_type inner @ ''!''
      else if k = Some ''LIST'' then ''['' @ format_type inner @ '']''
      else (case n of
              None \<Rightarrow> ''?''
            | Some s \<Rightarrow> if s = [] then ''?'' else s))"

text \<open>
  The reading of the specification: a type expression is a named type, a non-null
  wrapper or a list wrapper. \<open>encode\<close> is its introspection form, \<open>render\<close> the
  notation the specification describes.
\<close>

datatype gql_type =
    Named string string
  | NonNull gql_type
  | ListOf gql_type

fun encode :: "gql_type \<Rightarrow> type_ref" where
  "encode (Named k n) = Ref (Some k) (Some n) NoRef"
| "encode (NonNull t) = Ref (Some ''NON_NULL'') None (encode t)"
| "encode (ListOf t) = Ref (Some ''LIST'') None (encode t)"

fun render :: "gql_type \<Rightarrow> string" where
  "render (Named k n) = n"
| "render (NonNull t) = render t @ ''!''"
| "render (ListOf t) = ''['' @ render t @ '']''"

fun well_named :: "gql_type \<Rightarrow> bool" where
  "well_named (Named k n) = (k \<noteq> ''NON_NULL'' \<and> k \<noteq> ''LIST'' \<and> n \<noteq> [])"
| "well_named (NonNull t) = well_named t"
| "well_named (ListOf t) = well_named t"

section \<open>Properties\<close>

subsection \<open>Dotted-path access\<close>

lemma py_int_decimal: "isdigit key \<Longrightarrow> list_all decimal_char key \<Longrightarrow> \<exists>idx. py_int key = Inr idx"
  by (simp add: isdigit_def py_int_def)

lemma get_nested_loop_decimal:
  "\<forall>key \<in> set keys. isdigit key \<longrightarrow> list_all decimal_char key
     \<Longrightarrow> \<exists>v. get_nested_loop current keys = Inr v"
proof (induction keys arbitrary: current)
  case Nil
  show ?case by simp
next
  case (Cons key keys)
  have rest: "\<And>c. \<exists>v. get_nested_loop c keys = Inr v"
    using Cons by simp
  show ?case
  proof (cases current)
    case (JArr xs)
    show ?thesis
    proof (cases "isdigit key")
      case True
      then obtain idx where "py_int key = Inr idx"
        using Cons.prems py_int_decimal by auto
      then show ?thesis
        using JArr True rest by simp
    next
      case False
      then show ?thesis using JArr by simp
    qed
  next
    case (JObj kvs)
    then show ?thesis using rest by simp
  qed simp_all
qed

lemma get_nested_value_decimal:
  "\<forall>key \<in> set (split_sep (CHR ''.'') path). isdigit key \<longrightarrow> list_all decimal_char key
     \<Longrightarrow> \<exists>v. get_nested_value data path = Inr v"
  by (simp add: get_nested_value_def get_nested_loop_decimal)

lemma get_nested_value_deep:
  "get_nested_value
     (JObj [(''a'', JObj [(''b'', JObj [(''c'', JObj [(''d'', JInt 42)])])])]) ''a.b.c.d''
   = Inr (JInt 42)"
  by (simp add: get_nested_value_def dict_get_def dict_get_default_def)

lemma get_nested_value_index:
  "get_nested_value
     (JObj [(''trips'', JArr [JObj [(''id'', JInt 1)], JObj [(''id'', JInt 2)]])]) ''trips.0.id''
   = Inr (JInt 1)"
  by (simp add: get_nested_value_def dict_get_def dict_get_default_def isdigit_def
        digit_char_def decimal_char_def py_int_def)

lemma get_nested_value_out_of_range:
  "get_nested_value (JObj [(''trips'', JArr [JObj [(''id'', JInt 1)]])]) ''trips.5.id''
   = Inr JNull"
  by (simp add: get_nested_value_def dict_get_def dict_get_default_def isdigit_def
        digit_char_def decimal_char_def py_int_def)

text \<open>
  Claim C5. The accessor is to return the addressed value or report it missing, never an
  error. For paths whose digit segments are decimal it does (\<open>get_nested_value_decimal\<close>
  and the three examples above). A segment made of a superscript digit passes
  \<^verbatim>\<open>key.isdigit()\<close> and then fails in \<^verbatim>\<open>int(key)\<close>: on the dictionary \<^verbatim>\<open>{"a": [1]}\<close>
  and the path \<^verbatim>\<open>a.\<close> followed by the superscript two, the accessor raises
  \<^verbatim>\<open>ValueError\<close>.
\<close>

theorem get_nested_value_superscript_digit:
  "get_nested_value (JObj [(''a'', JArr [JInt 1])]) [CHR ''a'', CHR ''.'', CHR 0xB2]
   = Inl ValueError"
  by (simp add: get_nested_value_def dict_get_def dict_get_default_def isdigit_def
        digit_char_def decimal_char_def py_int_def)

theorem get_nested_value_superscript_digit_witness:
  "truthy (JObj [(''a'', JArr [JInt 1])])
   \<and> isdigit [CHR 0xB2]
   \<and> py_int [CHR 0xB2] = Inl ValueError
   \<and> get_nested_value (JObj [(''a'', JArr [JInt 1])]) [CHR ''a'', CHR ''.'', CHR 0xB2]
       = Inl ValueError"
  using get_nested_value_superscript_digit
  by (simp add: isdigit_def digit_char_def decimal_char_def py_int_def)

subsection \<open>Table extraction and context truncation\<close>

lemma serialized_size_empty: "serialized_size [] = 2"
  by (simp add: serialized_size_def)

lemma scan_rows_append: "\<exists>k. scan_rows max_chars acc rs = acc @ take k rs"
proof (induction rs arbitrary: acc)
  case Nil
  show ?case by simp
next
  case (Cons r rs)
  show ?case
  proof (cases "serialized_size (acc @ [r]) \<le> max_chars")
    case True
    obtain k where "scan_rows max_chars (acc @ [r]) rs = (acc @ [r]) @ take k rs"
      using Cons.IH by blast
    then have "scan_rows max_chars acc (r # rs) = acc @ take (Suc k) (r # rs)"
      using True by simp
    then show ?thesis by blast
  next
    case False
    then have "scan_rows max_chars acc (r # rs) = acc @ take 0 (r # rs)"
      by simp
    then show ?thesis by blast
  qed
qed

lemma scan_rows_prefix: "prefix (scan_rows max_chars [] rs) rs"
proof -
  obtain k where "scan_rows max_chars [] rs = take k rs"
    using scan_rows_append [of max_chars "[]" rs] by auto
  then show ?thesis by (simp add: take_is_prefix)
qed

lemma scan_rows_fits:
  "serialized_size acc \<le> max_chars \<Longrightarrow> serialized_size (scan_rows max_chars acc rs) \<le> max_chars"
  by (induction rs arbitrary: acc) simp_all

lemma filter_sequence_first:
  "\<forall>v \<in> set (map snd pre). \<not> is_sequence v
     \<Longrightarrow> filter is_sequence (map snd (pre @ (k, JArr rows) # post))
         = JArr rows # filter is_sequence (map snd post)"
  by (simp add: filter_empty_conv)

lemma filter_sequence_none:
  "\<forall>v \<in> set (map snd kvs). \<not> is_sequence v \<Longrightarrow> filter is_sequence (map snd kvs) = []"
  by (simp add: filter_empty_conv)

text \<open>
  Claim C7. Extraction classifies every value: an array is the dataset under the given
  name, with no summary; a mapping with a sequence among its direct values gives the
  first such sequence in the mapping's order (empty or not), with no summary; a mapping
  with none (the empty mapping included) is wrapped as one record, with a summary of one
  row; \<^verbatim>\<open>null\<close> and the scalars give an empty registry and no summary.
\<close>

theorem extract_spec_classifies:
  "extract_spec e (JArr A) nm = ([nm \<mapsto> JArr A], None)
   \<and> ((\<forall>v \<in> set (map snd pre). \<not> is_sequence v) \<longrightarrow>
        extract_spec e (JObj (pre @ (k, JArr rows) # post)) nm = ([nm \<mapsto> JArr rows], None))
   \<and> ((\<forall>v \<in> set (map snd kvs). \<not> is_sequence v) \<longrightarrow>
        extract_spec e (JObj kvs) nm
          = ([nm \<mapsto> JArr [JObj kvs]], Some (summarize_spec e [JObj kvs] nm))
        \<and> sum_rows (summarize_spec e [JObj kvs] nm) = 1)
   \<and> extract_spec e JNull nm = (Map.empty, None)
   \<and> extract_spec e (JBool b) nm = (Map.empty, None)
   \<and> extract_spec e (JInt i) nm = (Map.empty, None)
   \<and> extract_spec e (JStr s) nm = (Map.empty, None)"
proof -
  have first: "(\<forall>v \<in> set (map snd pre). \<not> is_sequence v) \<longrightarrow>
        extract_spec e (JObj (pre @ (k, JArr rows) # post)) nm = ([nm \<mapsto> JArr rows], None)"
    using filter_sequence_first [of pre k rows post] by (simp add: extract_spec_def)
  have none: "(\<forall>v \<in> set (map snd kvs). \<not> is_sequence v) \<longrightarrow>
        extract_spec e (JObj kvs) nm
          = ([nm \<mapsto> JArr [JObj kvs]], Some (summarize_spec e [JObj kvs] nm))
        \<and> sum_rows (summarize_spec e [JObj kvs] nm) = 1"
    using filter_sequence_none [of kvs] by (simp add: extract_spec_def summarize_spec_def)
  show ?thesis
    using first none by (simp add: extract_spec_def)
qed

theorem extract_spec_classifies_witness:
  "(fst (extract_spec example_engine
       (JObj [(''count'', JInt 100), (''users'', JArr []), (''posts'', JArr [JInt 2])]) ''api''))
     ''api'' = Some (JArr [])
   \<and> snd (extract_spec example_engine
       (JObj [(''count'', JInt 100), (''users'', JArr []), (''posts'', JArr [JInt 2])]) ''api'')
     = None
   \<and> (fst (extract_spec example_engine (JObj []) ''test'')) ''test'' = Some (JArr [JObj []])
   \<and> map_option sum_rows (snd (extract_spec example_engine (JObj []) ''test'')) = Some 1"
  using extract_spec_classifies
    [of example_engine _ _ "[(''count'', JInt 100)]" "''users''" "[]"
        "[(''posts'', JArr [JInt 2])]" "[]"]
  by simp

text \<open>
  Claim C6. A dataset whose serialized size is at most \<open>max_chars\<close> (equality included)
  is returned untruncated and unchanged. A larger one is returned truncated: the data are
  a prefix of whole records of the dataset, \<open>showing\<close> is their number and the schema is
  that of the summary of the full dataset; and for every budget that can hold a list at
  all, which is one of at least 2 characters, the size of the empty list, the data are
  fewer than the dataset and their serialization fits within \<open>max_chars\<close>.
\<close>

theorem truncate_spec_view:
  "(serialized_size D \<le> max_chars \<longrightarrow>
      \<not> cv_truncated (truncate_spec e D nm max_chars)
      \<and> cv_data (truncate_spec e D nm max_chars) = D)
   \<and> (max_chars < serialized_size D \<longrightarrow>
      cv_truncated (truncate_spec e D nm max_chars)
      \<and> prefix (cv_data (truncate_spec e D nm max_chars)) D
      \<and> subseq (cv_data (truncate_spec e D nm max_chars)) D
      \<and> cv_showing (truncate_spec e D nm max_chars)
          = Some (length (cv_data (truncate_spec e D nm max_chars)))
      \<and> cv_schema (truncate_spec e D nm max_chars) = Some (sum_schema (summarize_spec e D nm))
      \<and> (2 \<le> max_chars \<longrightarrow>
           serialized_size (cv_data (truncate_spec e D nm max_chars)) \<le> max_chars
           \<and> cv_data (truncate_spec e D nm max_chars) \<noteq> D))"
proof -
  have fits: "2 \<le> max_chars \<Longrightarrow> serialized_size (scan_rows max_chars [] D) \<le> max_chars"
    using scan_rows_fits [of "[]" max_chars D] by (simp add: serialized_size_empty)
  have proper: "2 \<le> max_chars \<Longrightarrow> max_chars < serialized_size D \<Longrightarrow> scan_rows max_chars [] D \<noteq> D"
    using fits by auto
  show ?thesis
    using fits proper scan_rows_prefix [of max_chars D]
    by (simp add: truncate_spec_def prefix_imp_subseq)
qed

lemma size_one_row: "serialized_size [JObj [(''id'', JInt 1)]] = 11"
  by (simp add: serialized_size_def dumps_str_def dumps_char_def str_int_def str_nat.simps)

lemma size_two_rows: "serialized_size [JObj [(''id'', JInt 1)], JObj [(''id'', JInt 2)]] = 22"
  by (simp add: serialized_size_def dumps_str_def dumps_char_def str_int_def str_nat.simps)

theorem truncate_spec_view_witness:
  "serialized_size [JObj [(''id'', JInt 1)]] \<le> 11
   \<and> cv_data (truncate_spec example_engine [JObj [(''id'', JInt 1)]] ''test'' 11)
       = [JObj [(''id'', JInt 1)]]
   \<and> 12 < serialized_size [JObj [(''id'', JInt 1)], JObj [(''id'', JInt 2)]]
   \<and> cv_truncated (truncate_spec example_engine
         [JObj [(''id'', JInt 1)], JObj [(''id'', JInt 2)]] ''test'' 12)
   \<and> serialized_size (cv_data (truncate_spec example_engine
         [JObj [(''id'', JInt 1)], JObj [(''id'', JInt 2)]] ''test'' 12)) \<le> 12"
  using truncate_spec_view [of "[JObj [(''id'', JInt 1)]]" 11 example_engine "''test''"]
    truncate_spec_view [of "[JObj [(''id'', JInt 1)], JObj [(''id'', JInt 2)]]" 12
      example_engine "''test''"]
  by (simp add: size_one_row size_two_rows)

subsection \<open>The polling and request tools\<close>

subsubsection \<open>One attempt\<close>


lemma poll_attempt_raised:
  "truthy (dict_get (attempt_response d a body s) ''success'')
   \<Longrightarrow> get_nested_value (attempt_data d a body s) (p_done_field a) = Inl e
   \<Longrightarrow> poll_attempt d a k body s = (Stop (Raised e), attempt_logged a k body s)"
  by (simp add: poll_attempt_def send_def attempt_response_def attempt_logged_def
        attempt_data_def Let_def)

lemma poll_attempt_missing:
  "truthy (dict_get (attempt_response d a body s) ''success'')
   \<Longrightarrow> get_nested_value (attempt_data d a body s) (p_done_field a) = Inr JNull
   \<Longrightarrow> poll_attempt d a 1 body s
       = (Stop (Returned (FieldMissing
            (field_missing_error (p_done_field a) (attempt_data d a body s)))),
          attempt_logged a 1 body s)"
  by (simp add: poll_attempt_def send_def attempt_response_def attempt_logged_def
        attempt_data_def Let_def)

lemma poll_attempt_done:
  "truthy (dict_get (attempt_response d a body s) ''success'')
   \<Longrightarrow> get_nested_value (attempt_data d a body s) (p_done_field a) = Inr v
   \<Longrightarrow> \<not> (v = JNull \<and> k = 1)
   \<Longrightarrow> lower (py_str v) = lower (p_done_value a)
   \<Longrightarrow> poll_attempt d a k body s
       = (Stop (Returned (Done
            (truncate_for_context d (as_rows (attempt_data d a body s)) (p_name a)) k)),
          store_tables
            (fst (extract_tables_from_response d (attempt_data d a body s) (p_name a)))
            (p_name a) (attempt_logged a k body s))"
  by (simp add: poll_attempt_def send_def attempt_response_def attempt_logged_def
        attempt_data_def Let_def)

lemma poll_attempt_pending:
  "truthy (dict_get (attempt_response d a body s) ''success'')
   \<Longrightarrow> get_nested_value (attempt_data d a body s) (p_done_field a) = Inr v
   \<Longrightarrow> \<not> (v = JNull \<and> k = 1)
   \<Longrightarrow> lower (py_str v) \<noteq> lower (p_done_value a)
   \<Longrightarrow> poll_attempt d a k body s
       = (case bump_polling_count body of
            Inl e \<Rightarrow> (Stop (Raised e), sleep (p_wait_ms a) (attempt_logged a k body s))
          | Inr body' \<Rightarrow> (Next body' v, sleep (p_wait_ms a) (attempt_logged a k body s)))"
  by (simp add: poll_attempt_def send_def attempt_response_def attempt_logged_def
        attempt_data_def Let_def split: sum.splits)

subsubsection \<open>Effects on the session\<close>

lemma track_fields:
  "trace (track c s) = trace s"
  "rest_calls (track c s) = map_option (\<lambda>calls. calls @ [c]) (rest_calls s)"
  by (simp_all add: track_def)

lemma sleep_fields:
  "trace (sleep ms s) = trace s @ [Sleep ms]"
  "rest_calls (sleep ms s) = rest_calls s"
  by (simp_all add: sleep_def)

lemma store_tables_fields:
  "trace (store_tables tables nm s) = trace s"
  "rest_calls (store_tables tables nm s) = rest_calls s"
  by (simp_all add: store_tables_def Let_def split: option.splits)

lemma attempt_logged_fields:
  "trace (attempt_logged a k body s) = trace s @ [Request (poll_request a body)]"
  "rest_calls (attempt_logged a k body s)
     = map_option (\<lambda>calls. calls @ [poll_record a k body]) (rest_calls s)"
  by (simp_all add: attempt_logged_def track_fields)


lemma poll_attempt_trace_stop:
  "poll_attempt d a k body s = (Stop out, s')
   \<Longrightarrow> trace s' = trace s @ [Request (poll_request a body)]
     \<or> trace s' = trace s @ [Request (poll_request a body), Sleep (p_wait_ms a)]"
  by (auto simp add: poll_attempt_def send_def Let_def track_fields sleep_fields
        store_tables_fields split: sum.splits if_splits)

lemma poll_attempt_trace_next:
  "poll_attempt d a k body s = (Next body' cur', s')
   \<Longrightarrow> trace s' = trace s @ [Request (poll_request a body), Sleep (p_wait_ms a)]
     \<and> bump_polling_count body = Inr body'"
  by (auto simp add: poll_attempt_def send_def Let_def track_fields sleep_fields
        store_tables_fields split: sum.splits if_splits)

subsubsection \<open>The loop\<close>

lemma poll_loop_exhausted:
  "\<not> n < MAX_POLLS d
   \<Longrightarrow> poll_loop d a n body cur s
       = (Returned (Exhausted
            (exhausted_error (MAX_POLLS d) (p_done_field a) cur (p_done_value a)) n), s)"
  by (simp add: poll_loop.simps)

lemma poll_loop_stop:
  "n < MAX_POLLS d \<Longrightarrow> poll_attempt d a (n + 1) body s = (Stop out, s')
   \<Longrightarrow> poll_loop d a n body cur s = (out, s')"
  by (simp add: poll_loop.simps)

lemma poll_loop_next:
  "n < MAX_POLLS d \<Longrightarrow> poll_attempt d a (n + 1) body s = (Next body' cur', s')
   \<Longrightarrow> poll_loop d a n body cur s = poll_loop d a (n + 1) body' cur' s'"
  by (simp add: poll_loop.simps)

lemma poll_loop_induct [case_names exhausted stop more]:
  assumes ex: "\<And>n body cur s. \<not> n < MAX_POLLS d \<Longrightarrow> P n body cur s"
    and st: "\<And>n body cur s out s'.
               n < MAX_POLLS d \<Longrightarrow> poll_attempt d a (n + 1) body s = (Stop out, s')
               \<Longrightarrow> P n body cur s"
    and nx: "\<And>n body cur s body' cur' s'.
               n < MAX_POLLS d \<Longrightarrow> poll_attempt d a (n + 1) body s = (Next body' cur', s')
               \<Longrightarrow> P (n + 1) body' cur' s' \<Longrightarrow> P n body cur s"
  shows "P n body cur s"
proof -
  have "\<forall>n body cur s. k = nat (MAX_POLLS d - n) \<longrightarrow> P n body cur s" for k
  proof (induction k)
    case 0
    then show ?case using ex by simp
  next
    case (Suc k)
    show ?case
    proof (intro allI impI)
      fix n body cur s
      assume k: "Suc k = nat (MAX_POLLS d - n)"
      then have lt: "n < MAX_POLLS d" by simp
      obtain step s' where pa: "poll_attempt d a (n + 1) body s = (step, s')"
        by (cases "poll_attempt d a (n + 1) body s") auto
      show "P n body cur s"
      proof (cases step)
        case (Stop out)
        then show ?thesis using st [OF lt] pa by simp
      next
        case (Next body' cur')
        have "k = nat (MAX_POLLS d - (n + 1))" using k by simp
        then have "P (n + 1) body' cur' s'" using Suc by simp
        then show ?thesis using nx [OF lt] pa Next by simp
      qed
    qed
  qed
  then show ?thesis by simp
qed

lemma poll_attempt_done_attempt:
  "poll_attempt d a k body s = (Stop (Returned (Done view j)), s') \<Longrightarrow> j = k"
  by (auto simp add: poll_attempt_def send_def Let_def split: sum.splits if_splits)

lemma poll_attempt_missing_first:
  "poll_attempt d a k body s = (Stop (Returned (FieldMissing err)), s') \<Longrightarrow> k = 1"
  by (auto simp add: poll_attempt_def send_def Let_def split: sum.splits if_splits)

lemma poll_loop_done_later:
  "poll_loop d a n body cur s = (Returned (Done view j), s') \<Longrightarrow> n < j"
proof (induction n body cur s rule: poll_loop_induct [where d = d and a = a])
  case (exhausted n body cur s)
  then show ?case by (simp add: poll_loop_exhausted)
next
  case (stop n body cur s out s1)
  then show ?case
    using poll_attempt_done_attempt [of d a "n + 1" body s view j s']
    by (simp add: poll_loop_stop)
next
  case (more n body cur s body' cur' s1)
  then show ?case by (simp add: poll_loop_next)
qed

lemma poll_loop_never_missing_later:
  "0 < n \<Longrightarrow> poll_loop d a n body cur s \<noteq> (Returned (FieldMissing err), s')"
proof (induction n body cur s rule: poll_loop_induct [where d = d and a = a])
  case (exhausted n body cur s)
  then show ?case by (simp add: poll_loop_exhausted)
next
  case (stop n body cur s out s1)
  then show ?case
    using poll_attempt_missing_first [of d a "n + 1" body s err s']
    by (auto simp add: poll_loop_stop)
next
  case (more n body cur s body' cur' s1)
  then show ?case by (simp add: poll_loop_next)
qed


subsubsection \<open>The request body and its counter\<close>

lemma map_of_dict_set: "map_of (dict_set k v kvs) k = Some v"
  by (induction kvs) auto

lemma dict_set_present: "map_of kvs k = Some v \<Longrightarrow> dict_set k v kvs = kvs"
  by (induction kvs) (auto split: if_splits)

lemma dict_set_twice: "dict_set k v (dict_set k v' kvs) = dict_set k v kvs"
  by (induction kvs) auto



lemma not_isdigit_polling: "\<not> isdigit ''polling''" "\<not> isdigit ''count''"
  by (simp_all add: isdigit_def digit_char_def decimal_char_def)

lemma split_polling_count: "split_sep (CHR ''.'') ''polling.count'' = [''polling'', ''count'']"
  by simp

lemma polling_count_int:
  assumes "get_nested_value body ''polling.count'' = Inr (JInt c)"
  shows "\<exists>kvs pkvs. body = JObj kvs \<and> map_of kvs ''polling'' = Some (JObj pkvs)
           \<and> map_of pkvs ''count'' = Some (JInt c)"
proof -
  have loop: "get_nested_loop body [''polling'', ''count''] = Inr (JInt c)"
    using assms by (simp add: get_nested_value_def split: if_splits)
  then obtain kvs where body: "body = JObj kvs"
    by (cases body) (simp_all add: not_isdigit_polling)
  define p where "p = dict_get kvs ''polling''"
  have inner: "p \<noteq> JNull" "get_nested_loop p [''count''] = Inr (JInt c)"
    using loop body by (auto simp add: p_def split: if_splits)
  then obtain pkvs where p: "p = JObj pkvs"
    by (cases p) (simp_all add: not_isdigit_polling)
  have "dict_get pkvs ''count'' = JInt c"
    using inner p by (auto split: if_splits)
  then have "map_of pkvs ''count'' = Some (JInt c)"
    by (auto simp add: dict_get_def dict_get_default_def split: option.splits)
  moreover have "map_of kvs ''polling'' = Some (JObj pkvs)"
    using p inner by (auto simp add: p_def dict_get_def dict_get_default_def split: option.splits)
  ultimately show ?thesis using body by blast
qed

lemma with_polling_count_facts:
  assumes "body = JObj kvs" "map_of kvs ''polling'' = Some (JObj pkvs)"
    "map_of pkvs ''count'' = Some (JInt c)"
  shows "bump_polling_count body = Inr (with_polling_count (c + 1) body)"
    and "with_polling_count c body = body"
    and "truthy body"
    and "with_polling_count c'' (with_polling_count c' body) = with_polling_count c'' body"
    and "get_nested_value (with_polling_count c' body) ''polling.count'' = Inr (JInt c')"
    and "bump_polling_count (with_polling_count c' body) = Inr (with_polling_count (c' + 1) body)"
proof -
  show "bump_polling_count body = Inr (with_polling_count (c + 1) body)"
    using assms by (simp add: bump_polling_count_def with_polling_count_def dict_get_def
        dict_get_default_def)
  show "with_polling_count c body = body"
    using assms by (simp add: with_polling_count_def dict_get_def dict_get_default_def
        dict_set_present)
  show "truthy body"
    using assms by auto
  show "with_polling_count c'' (with_polling_count c' body) = with_polling_count c'' body"
    using assms by (simp add: with_polling_count_def dict_get_def dict_get_default_def
        map_of_dict_set dict_set_twice)
  have nonempty: "dict_set ''polling'' v kvs \<noteq> []" for v
    by (cases kvs) auto
  show "get_nested_value (with_polling_count c' body) ''polling.count'' = Inr (JInt c')"
    using assms nonempty
    by (simp add: with_polling_count_def get_nested_value_def dict_get_def dict_get_default_def
        map_of_dict_set)
  show "bump_polling_count (with_polling_count c' body) = Inr (with_polling_count (c' + 1) body)"
    using assms by (simp add: bump_polling_count_def with_polling_count_def dict_get_def
        dict_get_default_def map_of_dict_set dict_set_twice)
qed


subsubsection \<open>Matching, and the missing field\<close>

lemma lower_None: "lower ''None'' = ''none''"
  by code_simp

lemma str_none: "lower (py_str JNull) = ''none''"
  by (simp add: lower_None)

lemma poll_done_iff:
  "n < MAX_POLLS d
   \<and> truthy (dict_get (attempt_response d a body s) ''success'')
   \<and> get_nested_value (attempt_data d a body s) (p_done_field a) = Inr v
   \<and> (v = JNull \<longrightarrow> n \<noteq> 0)
   \<longrightarrow> ((\<exists>view s'. poll_loop d a n body cur s = (Returned (Done view (n + 1)), s'))
          \<longleftrightarrow> lower (py_str v) = lower (p_done_value a))"
proof (intro impI, elim conjE)
  assume lt: "n < MAX_POLLS d"
    and ok: "truthy (dict_get (attempt_response d a body s) ''success'')"
    and v: "get_nested_value (attempt_data d a body s) (p_done_field a) = Inr v"
    and first: "v = JNull \<longrightarrow> n \<noteq> 0"
  have nf: "\<not> (v = JNull \<and> n + 1 = 1)" using first by simp
  show "(\<exists>view s'. poll_loop d a n body cur s = (Returned (Done view (n + 1)), s'))
          \<longleftrightarrow> lower (py_str v) = lower (p_done_value a)"
  proof
    assume eq: "lower (py_str v) = lower (p_done_value a)"
    show "\<exists>view s'. poll_loop d a n body cur s = (Returned (Done view (n + 1)), s')"
      using poll_loop_stop [OF lt poll_attempt_done [OF ok v nf eq]] by blast
  next
    assume "\<exists>view s'. poll_loop d a n body cur s = (Returned (Done view (n + 1)), s')"
    then obtain view s' where fin: "poll_loop d a n body cur s = (Returned (Done view (n + 1)), s')"
      by blast
    show "lower (py_str v) = lower (p_done_value a)"
    proof (rule ccontr)
      assume ne: "lower (py_str v) \<noteq> lower (p_done_value a)"
      note pa = poll_attempt_pending [OF ok v nf ne]
      show False
      proof (cases "bump_polling_count body")
        case (Inl e)
        then show False using pa fin poll_loop_stop [OF lt, of a body] by simp
      next
        case (Inr body')
        then have "poll_loop d a n body cur s
            = poll_loop d a (n + 1) body' v (sleep (p_wait_ms a) (attempt_logged a (n + 1) body s))"
          using pa poll_loop_next [OF lt, of a body] by simp
        then have "poll_loop d a (n + 1) body' v
              (sleep (p_wait_ms a) (attempt_logged a (n + 1) body s))
            = (Returned (Done view (n + 1)), s')"
          using fin by simp
        from poll_loop_done_later [OF this] show False by simp
      qed
    qed
  qed
qed

text \<open>
  Claim C2. When the first response succeeds and has no value at \<^verbatim>\<open>done_field\<close>, the
  machine ends \<open>FieldMissing\<close> on attempt 1, after one logged request, with an error text
  that holds the path and the list of the top-level keys of the response. From any later
  attempt on, no run ends \<open>FieldMissing\<close>.
\<close>

theorem poll_field_missing_first_only:
  "(0 < MAX_POLLS d
    \<and> truthy (dict_get (attempt_response d a body s) ''success'')
    \<and> get_nested_value (attempt_data d a body s) (p_done_field a) = Inr JNull
    \<longrightarrow> poll_loop d a 0 body cur s
        = (Returned (FieldMissing
             (field_missing_error (p_done_field a) (attempt_data d a body s))),
           attempt_logged a 1 body s))
   \<and> (0 < n \<longrightarrow> fst (poll_loop d a n body cur s) \<noteq> Returned (FieldMissing err))
   \<and> field_missing_error field (JObj kvs)
       = ''done_field '' @ [CHR 0x27] @ field @ [CHR 0x27]
           @ '' not found in response. Available keys: ''
           @ py_repr (JArr (map (JStr \<circ> fst) kvs))"
proof -
  have later: "0 < n \<longrightarrow> fst (poll_loop d a n body cur s) \<noteq> Returned (FieldMissing err)"
    using poll_loop_never_missing_later [of n d a body cur s err]
    by (metis prod.collapse)
  have first: "0 < MAX_POLLS d
    \<and> truthy (dict_get (attempt_response d a body s) ''success'')
    \<and> get_nested_value (attempt_data d a body s) (p_done_field a) = Inr JNull
    \<longrightarrow> poll_loop d a 0 body cur s
        = (Returned (FieldMissing
             (field_missing_error (p_done_field a) (attempt_data d a body s))),
           attempt_logged a 1 body s)"
    using poll_loop_stop [where n = 0 and d = d and a = a and body = body and s = s
        and cur = cur] poll_attempt_missing [of d a body s]
    by simp
  show ?thesis
    using first later by (simp add: field_missing_error_def)
qed

text \<open>
  Claim C10. On an attempt after the first whose response succeeds and has no value (or
  null) at \<^verbatim>\<open>done_field\<close>, the machine does not end \<open>FieldMissing\<close>. The missing value has
  the string form \<^verbatim>\<open>None\<close>, lowercase \<^verbatim>\<open>none\<close>: if \<^verbatim>\<open>done_value\<close> lowercases to \<^verbatim>\<open>none\<close> the
  machine ends \<open>Done\<close> on that attempt; otherwise it sleeps, increments the counter and
  goes on with the next attempt, \<^verbatim>\<open>current\<close> being \<^verbatim>\<open>None\<close>.
\<close>

theorem poll_missing_after_first:
  "0 < n \<and> n < MAX_POLLS d
   \<and> truthy (dict_get (attempt_response d a body s) ''success'')
   \<and> get_nested_value (attempt_data d a body s) (p_done_field a) = Inr JNull
   \<longrightarrow> lower (py_str JNull) = ''none''
     \<and> fst (poll_loop d a n body cur s) \<noteq> Returned (FieldMissing err)
     \<and> (lower (p_done_value a) = ''none'' \<longrightarrow>
          poll_loop d a n body cur s
            = (Returned (Done
                 (truncate_for_context d (as_rows (attempt_data d a body s)) (p_name a))
                 (n + 1)),
               store_tables
                 (fst (extract_tables_from_response d (attempt_data d a body s) (p_name a)))
                 (p_name a) (attempt_logged a (n + 1) body s)))
     \<and> (lower (p_done_value a) \<noteq> ''none'' \<longrightarrow>
          poll_loop d a n body cur s
            = (case bump_polling_count body of
                 Inl e \<Rightarrow> (Raised e, sleep (p_wait_ms a) (attempt_logged a (n + 1) body s))
               | Inr body' \<Rightarrow>
                   poll_loop d a (n + 1) body' JNull
                     (sleep (p_wait_ms a) (attempt_logged a (n + 1) body s))))"
proof (intro impI, elim conjE)
  assume pos: "0 < n" and lt: "n < MAX_POLLS d"
    and ok: "truthy (dict_get (attempt_response d a body s) ''success'')"
    and v: "get_nested_value (attempt_data d a body s) (p_done_field a) = Inr JNull"
  have nf: "\<not> (JNull = JNull \<and> n + 1 = 1)" using pos by simp
  have never: "fst (poll_loop d a n body cur s) \<noteq> Returned (FieldMissing err)"
    using poll_loop_never_missing_later [OF pos, of d a body cur s err]
    by (metis prod.collapse)
  have matched: "lower (p_done_value a) = ''none'' \<longrightarrow>
          poll_loop d a n body cur s
            = (Returned (Done
                 (truncate_for_context d (as_rows (attempt_data d a body s)) (p_name a))
                 (n + 1)),
               store_tables
                 (fst (extract_tables_from_response d (attempt_data d a body s) (p_name a)))
                 (p_name a) (attempt_logged a (n + 1) body s))"
    using poll_loop_stop [OF lt poll_attempt_done [OF ok v nf], of cur] by (simp add: lower_None)
  have pending: "lower (p_done_value a) \<noteq> ''none'' \<longrightarrow>
          poll_loop d a n body cur s
            = (case bump_polling_count body of
                 Inl e \<Rightarrow> (Raised e, sleep (p_wait_ms a) (attempt_logged a (n + 1) body s))
               | Inr body' \<Rightarrow>
                   poll_loop d a (n + 1) body' JNull
                     (sleep (p_wait_ms a) (attempt_logged a (n + 1) body s)))"
  proof
    assume "lower (p_done_value a) \<noteq> ''none''"
    then have ne: "lower (py_str JNull) \<noteq> lower (p_done_value a)"
      by (simp add: lower_None)
    note pa = poll_attempt_pending [OF ok v nf ne]
    show "poll_loop d a n body cur s
            = (case bump_polling_count body of
                 Inl e \<Rightarrow> (Raised e, sleep (p_wait_ms a) (attempt_logged a (n + 1) body s))
               | Inr body' \<Rightarrow>
                   poll_loop d a (n + 1) body' JNull
                     (sleep (p_wait_ms a) (attempt_logged a (n + 1) body s)))"
    proof (cases "bump_polling_count body")
      case (Inl e)
      then show ?thesis using pa poll_loop_stop [OF lt, of a body] by simp
    next
      case (Inr body')
      then show ?thesis using pa poll_loop_next [OF lt, of a body] by simp
    qed
  qed
  show "lower (py_str JNull) = ''none''
     \<and> fst (poll_loop d a n body cur s) \<noteq> Returned (FieldMissing err)
     \<and> (lower (p_done_value a) = ''none'' \<longrightarrow>
          poll_loop d a n body cur s
            = (Returned (Done
                 (truncate_for_context d (as_rows (attempt_data d a body s)) (p_name a))
                 (n + 1)),
               store_tables
                 (fst (extract_tables_from_response d (attempt_data d a body s) (p_name a)))
                 (p_name a) (attempt_logged a (n + 1) body s)))
     \<and> (lower (p_done_value a) \<noteq> ''none'' \<longrightarrow>
          poll_loop d a n body cur s
            = (case bump_polling_count body of
                 Inl e \<Rightarrow> (Raised e, sleep (p_wait_ms a) (attempt_logged a (n + 1) body s))
               | Inr body' \<Rightarrow>
                   poll_loop d a (n + 1) body' JNull
                     (sleep (p_wait_ms a) (attempt_logged a (n + 1) body s))))"
    using never matched pending str_none by blast
qed

subsubsection \<open>Exhaustion\<close>


subsubsection \<open>The counter over a run\<close>

lemma bump_without_count:
  assumes "get_nested_value body ''polling.count'' = Inr JNull"
    and "bump_polling_count body = Inr b"
  shows "b = body"
proof -
  obtain kvs where body: "body = JObj kvs"
    using assms(2) by (cases body) (simp_all add: bump_polling_count_def)
  obtain pkvs where p: "dict_get_default kvs ''polling'' (JObj []) = JObj pkvs"
    using assms(2) body
    by (cases "dict_get_default kvs ''polling'' (JObj [])") (simp_all add: bump_polling_count_def)
  have "dict_get pkvs ''count'' = JNull"
  proof (cases "map_of kvs ''polling''")
    case None
    then have "pkvs = []" using p by (simp add: dict_get_default_def)
    then show ?thesis by (simp add: dict_get_def dict_get_default_def)
  next
    case (Some v)
    then have v: "v = JObj pkvs" using p by (simp add: dict_get_default_def)
    have "kvs \<noteq> []" using Some by auto
    then have "get_nested_loop (JObj kvs) [''polling'', ''count''] = Inr JNull"
      using assms(1) body by (simp add: get_nested_value_def)
    then show ?thesis
      using Some v by (auto simp add: dict_get_def dict_get_default_def split: if_splits)
  qed
  then show ?thesis
    using assms(2) body p by (simp add: bump_polling_count_def)
qed

lemma poll_loop_alternates:
  "\<exists>new. trace (snd (poll_loop d a n body cur s)) = trace s @ new \<and> alternates new"
proof (induction n body cur s rule: poll_loop_induct [where d = d and a = a])
  case (exhausted n body cur s)
  then show ?case by (simp add: poll_loop_exhausted)
next
  case (stop n body cur s out s1)
  then show ?case
    using poll_attempt_trace_stop [of d a "n + 1" body s out s1]
    by (auto simp add: poll_loop_stop)
next
  case (more n body cur s body' cur' s1)
  then obtain new where new: "trace (snd (poll_loop d a (n + 1) body' cur' s1)) = trace s1 @ new"
    "alternates new" by blast
  have "trace s1 = trace s @ [Request (poll_request a body), Sleep (p_wait_ms a)]"
    using more poll_attempt_trace_next by blast
  then have "trace (snd (poll_loop d a n body cur s))
      = trace s @ (Request (poll_request a body) # Sleep (p_wait_ms a) # new)"
    using new more by (simp add: poll_loop_next)
  moreover have "alternates (Request (poll_request a body) # Sleep (p_wait_ms a) # new)"
    using new by simp
  ultimately show ?case by blast
qed

lemma poll_loop_counts:
  "\<forall>c. get_nested_value body ''polling.count'' = Inr (JInt c) \<longrightarrow>
     (\<exists>new. trace (snd (poll_loop d a n body cur s)) = trace s @ new
        \<and> map req_body (requests new)
            = map (\<lambda>i. with_polling_count (c + int i) body) [0..<length (requests new)])"
proof (induction n body cur s rule: poll_loop_induct [where d = d and a = a])
  case (exhausted n body cur s)
  then show ?case by (simp add: poll_loop_exhausted)
next
  case (stop n body cur s out s1)
  show ?case
  proof (intro allI impI)
    fix c assume c: "get_nested_value body ''polling.count'' = Inr (JInt c)"
    then obtain kvs pkvs where b: "body = JObj kvs" "map_of kvs ''polling'' = Some (JObj pkvs)"
      "map_of pkvs ''count'' = Some (JInt c)"
      using polling_count_int by blast
    have sent: "req_body (poll_request a body) = with_polling_count (c + int 0) body"
      using with_polling_count_facts(2,3) [OF b] by (simp add: poll_request_def)
    have "trace s1 = trace s @ [Request (poll_request a body)]
        \<or> trace s1 = trace s @ [Request (poll_request a body), Sleep (p_wait_ms a)]"
      using stop poll_attempt_trace_stop by blast
    then show "\<exists>new. trace (snd (poll_loop d a n body cur s)) = trace s @ new
        \<and> map req_body (requests new)
            = map (\<lambda>i. with_polling_count (c + int i) body) [0..<length (requests new)]"
      using stop sent by (auto simp add: poll_loop_stop)
  qed
next
  case (more n body cur s body' cur' s1)
  show ?case
  proof (intro allI impI)
    fix c assume c: "get_nested_value body ''polling.count'' = Inr (JInt c)"
    then obtain kvs pkvs where b: "body = JObj kvs" "map_of kvs ''polling'' = Some (JObj pkvs)"
      "map_of pkvs ''count'' = Some (JInt c)"
      using polling_count_int by blast
    note facts = with_polling_count_facts [OF b]
    have sent: "req_body (poll_request a body) = with_polling_count (c + int 0) body"
      using facts(2,3) by (simp add: poll_request_def)
    have step: "trace s1 = trace s @ [Request (poll_request a body), Sleep (p_wait_ms a)]"
      "bump_polling_count body = Inr body'"
      using more poll_attempt_trace_next by blast+
    then have body': "body' = with_polling_count (c + 1) body"
      using facts(1) by simp
    then have "get_nested_value body' ''polling.count'' = Inr (JInt (c + 1))"
      using facts(5) by simp
    then obtain new where new: "trace (snd (poll_loop d a (n + 1) body' cur' s1)) = trace s1 @ new"
      "map req_body (requests new)
         = map (\<lambda>i. with_polling_count (c + 1 + int i) body') [0..<length (requests new)]"
      using more.IH by blast
    have rest: "map req_body (requests new)
         = map (\<lambda>i. with_polling_count (c + int (Suc i)) body) [0..<length (requests new)]"
    proof -
      have "with_polling_count (c + 1 + int i) body' = with_polling_count (c + int (Suc i)) body"
        for i using body' facts(4) by (simp add: add.assoc)
      then show ?thesis using new(2) by simp
    qed
    have "trace (snd (poll_loop d a n body cur s))
        = trace s @ (Request (poll_request a body) # Sleep (p_wait_ms a) # new)"
      using new(1) step more by (simp add: poll_loop_next)
    moreover have "map req_body (requests (Request (poll_request a body) # Sleep (p_wait_ms a) # new))
        = map (\<lambda>i. with_polling_count (c + int i) body)
            [0..<length (requests (Request (poll_request a body) # Sleep (p_wait_ms a) # new))]"
      using sent rest by (simp add: map_upt_Suc del: upt_Suc)
    ultimately show "\<exists>new. trace (snd (poll_loop d a n body cur s)) = trace s @ new
        \<and> map req_body (requests new)
            = map (\<lambda>i. with_polling_count (c + int i) body) [0..<length (requests new)]"
      by blast
  qed
qed

lemma poll_loop_same_body:
  "get_nested_value body ''polling.count'' = Inr JNull \<longrightarrow>
     (\<exists>new. trace (snd (poll_loop d a n body cur s)) = trace s @ new
        \<and> (\<forall>r \<in> set (requests new). r = poll_request a body))"
proof (induction n body cur s rule: poll_loop_induct [where d = d and a = a])
  case (exhausted n body cur s)
  then show ?case by (simp add: poll_loop_exhausted)
next
  case (stop n body cur s out s1)
  then show ?case
    using poll_attempt_trace_stop [of d a "n + 1" body s out s1]
    by (auto simp add: poll_loop_stop)
next
  case (more n body cur s body' cur' s1)
  show ?case
  proof
    assume c: "get_nested_value body ''polling.count'' = Inr JNull"
    have step: "trace s1 = trace s @ [Request (poll_request a body), Sleep (p_wait_ms a)]"
      "bump_polling_count body = Inr body'"
      using more poll_attempt_trace_next by blast+
    then have same: "body' = body" using bump_without_count c by blast
    then obtain new where new: "trace (snd (poll_loop d a (n + 1) body' cur' s1)) = trace s1 @ new"
      "\<forall>r \<in> set (requests new). r = poll_request a body"
      using more.IH c by blast
    have "trace (snd (poll_loop d a n body cur s))
        = trace s @ (Request (poll_request a body) # Sleep (p_wait_ms a) # new)"
      using new(1) step more by (simp add: poll_loop_next)
    moreover have "\<forall>r \<in> set (requests (Request (poll_request a body) # Sleep (p_wait_ms a) # new)).
        r = poll_request a body"
      using new(2) by simp
    ultimately show "\<exists>new. trace (snd (poll_loop d a n body cur s)) = trace s @ new
        \<and> (\<forall>r \<in> set (requests new). r = poll_request a body)"
      by blast
  qed
qed

text \<open>
  Claim C4. When the request body has an integer at \<^verbatim>\<open>polling.count\<close>, the increment
  between attempts adds 1 to it and changes nothing else; in every run the requests and
  the delays alternate, and the request number \<open>i\<close> (from 0) carries the body with the
  counter raised by \<open>i\<close>. When the body has nothing at \<^verbatim>\<open>polling.count\<close>, the increment
  leaves it as it is and every request of the run carries the same body.
\<close>

theorem poll_auto_increment:
  "(get_nested_value body ''polling.count'' = Inr (JInt c) \<longrightarrow>
      bump_polling_count body = Inr (with_polling_count (c + 1) body)
      \<and> get_nested_value (with_polling_count (c + 1) body) ''polling.count'' = Inr (JInt (c + 1))
      \<and> (\<exists>new. trace (snd (poll_loop d a n body cur s)) = trace s @ new
            \<and> alternates new
            \<and> map req_body (requests new)
                = map (\<lambda>i. with_polling_count (c + int i) body) [0..<length (requests new)]))
   \<and> (get_nested_value body ''polling.count'' = Inr JNull \<longrightarrow>
      (\<forall>b. bump_polling_count body = Inr b \<longrightarrow> b = body)
      \<and> (\<exists>new. trace (snd (poll_loop d a n body cur s)) = trace s @ new
            \<and> alternates new
            \<and> (\<forall>r \<in> set (requests new). r = poll_request a body)))"
proof (intro conjI impI)
  assume c: "get_nested_value body ''polling.count'' = Inr (JInt c)"
  then obtain kvs pkvs where b: "body = JObj kvs" "map_of kvs ''polling'' = Some (JObj pkvs)"
    "map_of pkvs ''count'' = Some (JInt c)"
    using polling_count_int by blast
  show "bump_polling_count body = Inr (with_polling_count (c + 1) body)"
    using with_polling_count_facts(1) [OF b] .
  show "get_nested_value (with_polling_count (c + 1) body) ''polling.count'' = Inr (JInt (c + 1))"
    using with_polling_count_facts(5) [OF b] .
  obtain new1 new2 where n1: "trace (snd (poll_loop d a n body cur s)) = trace s @ new1"
    "alternates new1"
    and n2: "trace (snd (poll_loop d a n body cur s)) = trace s @ new2"
    "map req_body (requests new2)
       = map (\<lambda>i. with_polling_count (c + int i) body) [0..<length (requests new2)]"
    using poll_loop_alternates [of d a n body cur s] poll_loop_counts [of body d a n cur s] c
    by blast
  then have "new1 = new2" by simp
  then show "\<exists>new. trace (snd (poll_loop d a n body cur s)) = trace s @ new
            \<and> alternates new
            \<and> map req_body (requests new)
                = map (\<lambda>i. with_polling_count (c + int i) body) [0..<length (requests new)]"
    using n1 n2 by blast
next
  assume c: "get_nested_value body ''polling.count'' = Inr JNull"
  show "\<forall>b. bump_polling_count body = Inr b \<longrightarrow> b = body"
    using bump_without_count c by blast
  obtain new1 new2 where n1: "trace (snd (poll_loop d a n body cur s)) = trace s @ new1"
    "alternates new1"
    and n2: "trace (snd (poll_loop d a n body cur s)) = trace s @ new2"
    "\<forall>r \<in> set (requests new2). r = poll_request a body"
    using poll_loop_alternates [of d a n body cur s] poll_loop_same_body [of body d a n cur s] c
    by blast
  then have "new1 = new2" by simp
  then show "\<exists>new. trace (snd (poll_loop d a n body cur s)) = trace s @ new
            \<and> alternates new
            \<and> (\<forall>r \<in> set (requests new). r = poll_request a body)"
    using n1 n2 by blast
qed

subsubsection \<open>Example runs\<close>

lemma str_int_small: "str_int 0 = ''0''" "str_int 1 = ''1''" "str_int 2 = ''2''"
  by code_simp+

lemma lower_small: "lower ''0'' = ''0''" "lower ''1'' = ''1''" "lower ''2'' = ''2''"
  by code_simp+

lemma flights_value:
  "get_nested_value (flights_data k) ''retry.next'' = Inr (JInt (max 0 (3 - k)))"
  by (simp add: flights_data_def get_nested_value_def dict_get_def dict_get_default_def)

lemma flights_attempt:
  assumes "execute_request d = flights_mock"
  shows "truthy (dict_get (attempt_response d a body s) ''success'')"
    and "attempt_data d a body s = flights_data (int (length (requests (trace s))) + 1)"
  using assms
  by (simp_all add: attempt_response_def attempt_data_def flights_mock_def dict_get_def
        dict_get_default_def)

lemma bump_empty: "bump_polling_count (JObj []) = Inr (JObj [])"
  by (simp add: bump_polling_count_def dict_get_def dict_get_default_def)

lemma requests_append: "requests (xs @ ys) = requests xs @ requests ys"
  by (induction xs rule: requests.induct) simp_all

lemma poll_until_done_defaults:
  "poll_until_done d m p f v [] [] [] nm delay_ms s
   = poll_loop d
       \<lparr>p_method = m, p_path = p, p_done_field = f, p_done_value = v, p_pp = JNull,
        p_qp = JNull, p_name = nm,
        p_wait_ms = (if delay_ms > 0 then delay_ms else DEFAULT_POLL_DELAY_MS d)\<rparr>
       0 (JObj []) JNull s"
  by (simp add: poll_until_done_def loads_or_def)

lemma flights_run:
  assumes exec: "execute_request d = flights_mock" and polls: "3 \<le> MAX_POLLS d"
    and a: "p_done_field a = ''retry.next''" "p_done_value a = ''0''"
    and s: "requests (trace s) = []"
  shows "\<exists>s'. poll_loop d a 0 (JObj []) JNull s
      = (Returned (Done (truncate_for_context d (as_rows (flights_data 3)) (p_name a)) 3), s')
      \<and> length (requests (trace s')) = 3"
proof -
  define s1 where "s1 = sleep (p_wait_ms a) (attempt_logged a (0 + 1) (JObj []) s)"
  define s2 where "s2 = sleep (p_wait_ms a) (attempt_logged a (1 + 1) (JObj []) s1)"
  define s3 where "s3 = store_tables
      (fst (extract_tables_from_response d (attempt_data d a (JObj []) s2) (p_name a)))
      (p_name a) (attempt_logged a (2 + 1) (JObj []) s2)"
  have r1: "length (requests (trace s1)) = 1"
    using s by (simp add: s1_def sleep_fields attempt_logged_fields requests_append)
  have r2: "length (requests (trace s2)) = 2"
    using r1 by (simp add: s2_def sleep_fields attempt_logged_fields requests_append)
  have r3: "length (requests (trace s3)) = 3"
    using r2 by (simp add: s3_def store_tables_fields attempt_logged_fields requests_append)
  have d1: "attempt_data d a (JObj []) s = flights_data 1"
    using flights_attempt(2) [OF exec] s by simp
  have d2: "attempt_data d a (JObj []) s1 = flights_data 2"
    using flights_attempt(2) [OF exec] r1 by simp
  have d3: "attempt_data d a (JObj []) s2 = flights_data 3"
    using flights_attempt(2) [OF exec] r2 by simp
  have step1: "poll_attempt d a (0 + 1) (JObj []) s = (Next (JObj []) (JInt 2), s1)"
    using poll_attempt_pending [of d a "JObj []" s "JInt 2" "0 + 1"]
      flights_attempt(1) [OF exec] d1 flights_value [of 1] a
    by (simp add: s1_def bump_empty str_int_small lower_small)
  have step2: "poll_attempt d a (1 + 1) (JObj []) s1 = (Next (JObj []) (JInt 1), s2)"
    using poll_attempt_pending [of d a "JObj []" s1 "JInt 1" "1 + 1"]
      flights_attempt(1) [OF exec] d2 flights_value [of 2] a
    by (simp add: s2_def bump_empty str_int_small lower_small)
  have step3: "poll_attempt d a (2 + 1) (JObj []) s2
      = (Stop (Returned (Done (truncate_for_context d (as_rows (flights_data 3)) (p_name a))
           (2 + 1))), s3)"
    using poll_attempt_done [of d a "JObj []" s2 "JInt 0" "2 + 1"]
      flights_attempt(1) [OF exec] d3 flights_value [of 3] a
    by (simp add: s3_def str_int_small lower_small)
  have "poll_loop d a 0 (JObj []) JNull s = poll_loop d a 1 (JObj []) (JInt 2) s1"
    using poll_loop_next [where n = 0 and d = d and a = a and cur = JNull] polls step1
    by simp
  also have "\<dots> = poll_loop d a 2 (JObj []) (JInt 1) s2"
    using poll_loop_next [where n = 1 and d = d and a = a and cur = "JInt 2"] polls step2
    by simp
  also have "\<dots> = (Returned (Done (truncate_for_context d (as_rows (flights_data 3)) (p_name a))
           3), s3)"
    using poll_loop_stop [where n = 2 and d = d and a = a and cur = "JInt 1"] polls step3
    by simp
  finally show ?thesis using r3 by simp
qed



lemma lower_bools: "lower ''False'' = ''false''" "lower ''True'' = ''true''"
  "lower ''true'' = ''true''"
  by code_simp+

lemma lower_complete: "lower ''complete'' = ''complete''"
  by code_simp




lemma no_field_attempt:
  "truthy (dict_get (attempt_response (example_deps no_field_mock k) a body s) ''success'')"
  "attempt_data (example_deps no_field_mock k) a body s
     = JObj [(''status'', JStr ''pending''), (''results'', JArr [])]"
  "get_nested_value (attempt_data (example_deps no_field_mock k) a body s) ''polling.completed''
     = Inr JNull"
  by (simp_all add: attempt_response_def attempt_data_def example_deps_def no_field_mock_def
        dict_get_def dict_get_default_def get_nested_value_def)



text \<open>
  Claim C8. A fragment that \<^verbatim>\<open>json.loads\<close> rejects is to give a structured failure. Only
  the body of \<^verbatim>\<open>poll_until_done\<close> does: the tool returns \<open>InvalidBody\<close> with the session
  untouched (no request, no record). The path and query parameters of both tools and the
  body of \<^verbatim>\<open>rest_call\<close> are parsed outside any \<^verbatim>\<open>try\<close>, and the tool raises
  \<^verbatim>\<open>JSONDecodeError\<close>.
\<close>

theorem fragment_parse_failure:
  "fragment \<noteq> [] \<and> json_loads d fragment = Inl msg \<longrightarrow>
     rest_call d m p fragment qs b nm s = (Raised (JSONDecodeError msg), s)
     \<and> (loads_or d ps JNull = Inr pp \<longrightarrow>
          rest_call d m p ps fragment b nm s = (Raised (JSONDecodeError msg), s))
     \<and> (loads_or d ps JNull = Inr pp \<and> loads_or d qs JNull = Inr qp \<longrightarrow>
          rest_call d m p ps qs fragment nm s = (Raised (JSONDecodeError msg), s))
     \<and> poll_until_done d m p f v b fragment qs nm ms s = (Raised (JSONDecodeError msg), s)
     \<and> (loads_or d ps JNull = Inr pp \<longrightarrow>
          poll_until_done d m p f v b ps fragment nm ms s = (Raised (JSONDecodeError msg), s))
     \<and> (loads_or d ps JNull = Inr pp \<and> loads_or d qs JNull = Inr qp \<longrightarrow>
          poll_until_done d m p f v fragment ps qs nm ms s
            = (Returned (InvalidBody (''Invalid body JSON: '' @ msg)), s))"
  by (simp add: rest_call_def poll_until_done_def loads_or_def)

lemma not_json_rejected: "example_loads ''not-json'' = Inl ''Expecting value''"
  by (simp add: example_loads_def count_body_def dumps_str_def)

theorem fragment_parse_failure_witness:
  "''not-json'' \<noteq> []
   \<and> json_loads (example_deps pending_mock 3) ''not-json'' = Inl ''Expecting value''
   \<and> rest_call (example_deps pending_mock 3) ''GET'' ''/users'' ''not-json'' [] [] ''data''
        fresh_session
      = (Raised (JSONDecodeError ''Expecting value''), fresh_session)
   \<and> loads_or (example_deps pending_mock 3) [] JNull = Inr JNull
   \<and> rest_call (example_deps pending_mock 3) ''GET'' ''/users'' [] ''not-json'' [] ''data''
        fresh_session
      = (Raised (JSONDecodeError ''Expecting value''), fresh_session)
   \<and> rest_call (example_deps pending_mock 3) ''POST'' ''/users'' [] [] ''not-json'' ''data''
        fresh_session
      = (Raised (JSONDecodeError ''Expecting value''), fresh_session)
   \<and> poll_until_done (example_deps pending_mock 3) ''POST'' ''/search/flights''
        ''polling.completed'' ''true'' [] ''not-json'' [] ''poll_result'' 0 fresh_session
      = (Raised (JSONDecodeError ''Expecting value''), fresh_session)
   \<and> poll_until_done (example_deps pending_mock 3) ''POST'' ''/search/flights''
        ''polling.completed'' ''true'' ''not-json'' [] [] ''poll_result'' 0 fresh_session
      = (Returned (InvalidBody ''Invalid body JSON: Expecting value''), fresh_session)"
proof -
  let ?d = "example_deps pending_mock 3"
  have bad: "''not-json'' \<noteq> [] \<and> json_loads ?d ''not-json'' = Inl ''Expecting value''"
    by (simp add: example_deps_def not_json_rejected)
  have empty: "loads_or ?d [] JNull = Inr JNull"
    by (simp add: loads_or_def)
  note inst = fragment_parse_failure [where fragment = "''not-json''" and d = ?d
      and msg = "''Expecting value''" and ps = "[]" and pp = JNull and qs = "[]" and qp = JNull
      and b = "[]" and s = fresh_session and f = "''polling.completed''" and v = "''true''"
      and ms = 0]
  show ?thesis
    using bad empty inst [where m = "''GET''" and p = "''/users''" and nm = "''data''"]
      inst [where m = "''POST''" and p = "''/users''" and nm = "''data''"]
      inst [where m = "''POST''" and p = "''/search/flights''" and nm = "''poll_result''"]
    by simp
qed

lemma lower_alphabet: "lower ''ABCDEFGHIJKLMNOPQRSTUVWXYZ'' = ''abcdefghijklmnopqrstuvwxyz''"
  by code_simp

lemma lower_completed:
  "lower ''Completed'' = ''completed''" "lower ''COMPLETED'' = ''completed''"
  "lower ''TRUE'' = ''true''"
  by code_simp+

text \<open>
  Claim C1, as amended. On every attempt whose request succeeds, the value extracted at
  \<^verbatim>\<open>done_field\<close> decides the attempt. If it is missing and the attempt is the first, the
  machine ends \<open>FieldMissing\<close> and no comparison is made. In every other case the machine
  ends \<open>Done\<close> on that attempt exactly when the lowercased string form of the value equals
  the lowercased \<^verbatim>\<open>done_value\<close>; lowercasing maps \<open>A\<close> to \<open>Z\<close> onto \<open>a\<close> to \<open>z\<close>, so the
  text \<^verbatim>\<open>Completed\<close> matches \<^verbatim>\<open>COMPLETED\<close> and the boolean \<^verbatim>\<open>True\<close> matches \<^verbatim>\<open>TRUE\<close>. With
  the capability that answers \<^verbatim>\<open>retry.next\<close> 2, 1, 0 and \<^verbatim>\<open>done_value\<close> \<^verbatim>\<open>"0"\<close>, the tool
  returns \<open>Done\<close> with 3 attempts after exactly 3 requests.
\<close>

theorem poll_done_iff_match:
  "(n < MAX_POLLS d
    \<and> truthy (dict_get (attempt_response d a body s) ''success'')
    \<and> get_nested_value (attempt_data d a body s) (p_done_field a) = Inr v
    \<longrightarrow> (v = JNull \<and> n = 0 \<longrightarrow>
           poll_loop d a n body cur s
             = (Returned (FieldMissing
                  (field_missing_error (p_done_field a) (attempt_data d a body s))),
                attempt_logged a 1 body s))
       \<and> (\<not> (v = JNull \<and> n = 0) \<longrightarrow>
           ((\<exists>view s'. poll_loop d a n body cur s = (Returned (Done view (n + 1)), s'))
            \<longleftrightarrow> lower (py_str v) = lower (p_done_value a))))
   \<and> lower ''ABCDEFGHIJKLMNOPQRSTUVWXYZ'' = ''abcdefghijklmnopqrstuvwxyz''
   \<and> (n < MAX_POLLS d
       \<and> truthy (dict_get (attempt_response d a body s) ''success'')
       \<and> get_nested_value (attempt_data d a body s) (p_done_field a) = Inr (JStr ''Completed'')
       \<and> p_done_value a = ''COMPLETED''
       \<longrightarrow> (\<exists>view s'. poll_loop d a n body cur s = (Returned (Done view (n + 1)), s')))
   \<and> (n < MAX_POLLS d
       \<and> truthy (dict_get (attempt_response d a body s) ''success'')
       \<and> get_nested_value (attempt_data d a body s) (p_done_field a) = Inr (JBool True)
       \<and> p_done_value a = ''TRUE''
       \<longrightarrow> (\<exists>view s'. poll_loop d a n body cur s = (Returned (Done view (n + 1)), s')))
   \<and> (n < MAX_POLLS d
       \<and> truthy (dict_get (attempt_response d a body s) ''success'')
       \<and> get_nested_value (attempt_data d a body s) (p_done_field a) = Inr (JStr ''Completed'')
       \<and> p_done_value a = ''complete''
       \<longrightarrow> \<not> (\<exists>view s'. poll_loop d a n body cur s = (Returned (Done view (n + 1)), s')))
   \<and> map (\<lambda>k. get_nested_value (flights_data k) ''retry.next'') [1, 2, 3]
       = [Inr (JInt 2), Inr (JInt 1), Inr (JInt 0)]
   \<and> (execute_request d = flights_mock \<and> 3 \<le> MAX_POLLS d \<longrightarrow>
        (\<exists>s'. poll_until_done d ''POST'' ''/flights/search'' ''retry.next'' ''0'' [] [] []
                 ''poll_result'' 1 fresh_session
               = (Returned (Done
                    (truncate_for_context d (as_rows (flights_data 3)) ''poll_result'') 3), s')
             \<and> length (requests (trace s')) = 3))"
proof (intro conjI)
  show "n < MAX_POLLS d
    \<and> truthy (dict_get (attempt_response d a body s) ''success'')
    \<and> get_nested_value (attempt_data d a body s) (p_done_field a) = Inr v
    \<longrightarrow> (v = JNull \<and> n = 0 \<longrightarrow>
           poll_loop d a n body cur s
             = (Returned (FieldMissing
                  (field_missing_error (p_done_field a) (attempt_data d a body s))),
                attempt_logged a 1 body s))
       \<and> (\<not> (v = JNull \<and> n = 0) \<longrightarrow>
           ((\<exists>view s'. poll_loop d a n body cur s = (Returned (Done view (n + 1)), s'))
            \<longleftrightarrow> lower (py_str v) = lower (p_done_value a)))"
  proof (intro impI conjI, elim conjE)
    assume lt: "n < MAX_POLLS d"
      and ok: "truthy (dict_get (attempt_response d a body s) ''success'')"
      and v: "get_nested_value (attempt_data d a body s) (p_done_field a) = Inr v"
      and first: "v = JNull" "n = 0"
    show "poll_loop d a n body cur s
             = (Returned (FieldMissing
                  (field_missing_error (p_done_field a) (attempt_data d a body s))),
                attempt_logged a 1 body s)"
      using poll_loop_stop [where n = 0 and d = d and a = a and body = body and s = s
          and cur = cur] poll_attempt_missing [of d a body s] lt ok v first
      by simp
  next
    assume "n < MAX_POLLS d
      \<and> truthy (dict_get (attempt_response d a body s) ''success'')
      \<and> get_nested_value (attempt_data d a body s) (p_done_field a) = Inr v"
      and "\<not> (v = JNull \<and> n = 0)"
    then show "(\<exists>view s'. poll_loop d a n body cur s = (Returned (Done view (n + 1)), s'))
            \<longleftrightarrow> lower (py_str v) = lower (p_done_value a)"
      using poll_done_iff [of n d a body s v cur] by blast
  qed
  show "lower ''ABCDEFGHIJKLMNOPQRSTUVWXYZ'' = ''abcdefghijklmnopqrstuvwxyz''"
    by (rule lower_alphabet)
  show "n < MAX_POLLS d
       \<and> truthy (dict_get (attempt_response d a body s) ''success'')
       \<and> get_nested_value (attempt_data d a body s) (p_done_field a) = Inr (JStr ''Completed'')
       \<and> p_done_value a = ''COMPLETED''
       \<longrightarrow> (\<exists>view s'. poll_loop d a n body cur s = (Returned (Done view (n + 1)), s'))"
    using poll_done_iff [of n d a body s "JStr ''Completed''" cur]
    by (simp add: lower_completed)
  show "n < MAX_POLLS d
       \<and> truthy (dict_get (attempt_response d a body s) ''success'')
       \<and> get_nested_value (attempt_data d a body s) (p_done_field a) = Inr (JBool True)
       \<and> p_done_value a = ''TRUE''
       \<longrightarrow> (\<exists>view s'. poll_loop d a n body cur s = (Returned (Done view (n + 1)), s'))"
    using poll_done_iff [of n d a body s "JBool True" cur]
    by (simp add: lower_completed lower_bools)
  show "n < MAX_POLLS d
       \<and> truthy (dict_get (attempt_response d a body s) ''success'')
       \<and> get_nested_value (attempt_data d a body s) (p_done_field a) = Inr (JStr ''Completed'')
       \<and> p_done_value a = ''complete''
       \<longrightarrow> \<not> (\<exists>view s'. poll_loop d a n body cur s = (Returned (Done view (n + 1)), s'))"
    using poll_done_iff [of n d a body s "JStr ''Completed''" cur]
    by (simp add: lower_completed lower_complete)
  show "map (\<lambda>k. get_nested_value (flights_data k) ''retry.next'') [1, 2, 3]
       = [Inr (JInt 2), Inr (JInt 1), Inr (JInt 0)]"
    by (simp add: flights_value)
  show "execute_request d = flights_mock \<and> 3 \<le> MAX_POLLS d \<longrightarrow>
        (\<exists>s'. poll_until_done d ''POST'' ''/flights/search'' ''retry.next'' ''0'' [] [] []
                 ''poll_result'' 1 fresh_session
               = (Returned (Done
                    (truncate_for_context d (as_rows (flights_data 3)) ''poll_result'') 3), s')
             \<and> length (requests (trace s')) = 3)"
    using flights_run [of d
        "\<lparr>p_method = ''POST'', p_path = ''/flights/search'', p_done_field = ''retry.next'',
          p_done_value = ''0'', p_pp = JNull, p_qp = JNull, p_name = ''poll_result'',
          p_wait_ms = 1\<rparr>" fresh_session]
    by (simp add: poll_until_done_defaults fresh_session_def)
qed

lemma status_attempt:
  "truthy (dict_get (attempt_response (example_deps status_mock k) a body s) ''success'')"
  "get_nested_value (attempt_data (example_deps status_mock k) a body s) ''status''
     = Inr (JStr ''Completed'')"
  "get_nested_value (attempt_data (example_deps status_mock k) a body s) ''done''
     = Inr (JBool True)"
  by (simp_all add: attempt_response_def attempt_data_def example_deps_def status_mock_def
        dict_get_def dict_get_default_def get_nested_value_def)

theorem poll_done_iff_match_witness:
  "0 < MAX_POLLS (example_deps flights_mock 10)
   \<and> truthy (dict_get (attempt_response (example_deps flights_mock 10)
        (example_args ''retry.next'' ''0'') (JObj []) fresh_session) ''success'')
   \<and> get_nested_value (attempt_data (example_deps flights_mock 10)
        (example_args ''retry.next'' ''0'') (JObj []) fresh_session) ''retry.next''
      = Inr (JInt 2)
   \<and> lower (py_str (JInt 2)) \<noteq> lower ''0''
   \<and> \<not> (\<exists>view s'. poll_loop (example_deps flights_mock 10) (example_args ''retry.next'' ''0'')
          0 (JObj []) JNull fresh_session = (Returned (Done view 1), s'))
   \<and> get_nested_value (attempt_data (example_deps no_field_mock 10)
        (example_args ''polling.completed'' ''true'') (JObj []) fresh_session)
        ''polling.completed'' = Inr JNull
   \<and> fst (poll_loop (example_deps no_field_mock 10) (example_args ''polling.completed'' ''true'')
        0 (JObj []) JNull fresh_session)
      = Returned (FieldMissing (field_missing_error ''polling.completed''
          (JObj [(''status'', JStr ''pending''), (''results'', JArr [])])))
   \<and> get_nested_value (attempt_data (example_deps status_mock 10)
        (example_args ''status'' ''COMPLETED'') (JObj []) fresh_session) ''status''
      = Inr (JStr ''Completed'')
   \<and> (\<exists>view s'. poll_loop (example_deps status_mock 10) (example_args ''status'' ''COMPLETED'')
          0 (JObj []) JNull fresh_session = (Returned (Done view 1), s'))
   \<and> get_nested_value (attempt_data (example_deps status_mock 10)
        (example_args ''done'' ''TRUE'') (JObj []) fresh_session) ''done''
      = Inr (JBool True)
   \<and> (\<exists>view s'. poll_loop (example_deps status_mock 10) (example_args ''done'' ''TRUE'')
          0 (JObj []) JNull fresh_session = (Returned (Done view 1), s'))
   \<and> \<not> (\<exists>view s'. poll_loop (example_deps status_mock 10) (example_args ''status'' ''complete'')
          0 (JObj []) JNull fresh_session = (Returned (Done view 1), s'))
   \<and> execute_request (example_deps flights_mock 10) = flights_mock
   \<and> 3 \<le> MAX_POLLS (example_deps flights_mock 10)
   \<and> (\<exists>s'. poll_until_done (example_deps flights_mock 10) ''POST'' ''/flights/search''
              ''retry.next'' ''0'' [] [] [] ''poll_result'' 1 fresh_session
            = (Returned (Done
                 (truncate_for_context (example_deps flights_mock 10)
                    (as_rows (flights_data 3)) ''poll_result'') 3), s')
          \<and> length (requests (trace s')) = 3)"
proof -
  let ?d = "example_deps flights_mock 10"
  let ?a = "example_args ''retry.next'' ''0''"
  have exec: "execute_request ?d = flights_mock" and polls: "MAX_POLLS ?d = 10"
    by (simp_all add: example_deps_def)
  have polls': "MAX_POLLS (example_deps exec 10) = 10" for exec
    by (simp add: example_deps_def)
  have field: "p_done_field (example_args f x) = f" "p_done_value (example_args f x) = x" for f x
    by (simp_all add: example_args_def)
  have ok: "truthy (dict_get (attempt_response ?d ?a (JObj []) fresh_session) ''success'')"
    using flights_attempt(1) [OF exec] .
  have val: "get_nested_value (attempt_data ?d ?a (JObj []) fresh_session) ''retry.next''
      = Inr (JInt 2)"
    using flights_attempt(2) [OF exec, of ?a "JObj []" fresh_session] flights_value [of 1]
    by (simp add: fresh_session_def)
  have ne: "lower (py_str (JInt 2)) \<noteq> lower ''0''"
    by (simp add: str_int_small lower_small)
  note inst = poll_done_iff_match [of 0 ?d ?a "JObj []" fresh_session "JInt 2" JNull]
  have c1: "\<not> (\<exists>view s'. poll_loop ?d ?a 0 (JObj []) JNull fresh_session
      = (Returned (Done view 1), s'))"
    using conjunct1 [OF inst] ok val ne by (simp add: polls field)
  have c2: "\<exists>s'. poll_until_done ?d ''POST'' ''/flights/search''
              ''retry.next'' ''0'' [] [] [] ''poll_result'' 1 fresh_session
            = (Returned (Done
                 (truncate_for_context ?d (as_rows (flights_data 3)) ''poll_result'') 3), s')
          \<and> length (requests (trace s')) = 3"
    using inst exec polls by simp
  let ?m = "example_deps no_field_mock 10"
  let ?am = "example_args ''polling.completed'' ''true''"
  note miss = poll_done_iff_match [of 0 ?m ?am "JObj []" fresh_session JNull JNull]
  have c3: "fst (poll_loop ?m ?am 0 (JObj []) JNull fresh_session)
      = Returned (FieldMissing (field_missing_error ''polling.completed''
          (JObj [(''status'', JStr ''pending''), (''results'', JArr [])])))"
    using conjunct1 [OF miss] no_field_attempt [of 10 ?am "JObj []" fresh_session]
    by (simp add: polls' field)
  let ?t = "example_deps status_mock 10"
  note upper = poll_done_iff_match [of 0 ?t "example_args ''status'' ''COMPLETED''" "JObj []"
      fresh_session _ JNull]
  have c4: "\<exists>view s'. poll_loop ?t (example_args ''status'' ''COMPLETED'') 0 (JObj []) JNull
      fresh_session = (Returned (Done view 1), s')"
    using upper status_attempt [of 10 "example_args ''status'' ''COMPLETED''" "JObj []"
        fresh_session]
    by (simp add: polls' field)
  note bool = poll_done_iff_match [of 0 ?t "example_args ''done'' ''TRUE''" "JObj []"
      fresh_session _ JNull]
  have c5: "\<exists>view s'. poll_loop ?t (example_args ''done'' ''TRUE'') 0 (JObj []) JNull
      fresh_session = (Returned (Done view 1), s')"
    using bool status_attempt [of 10 "example_args ''done'' ''TRUE''" "JObj []" fresh_session]
    by (simp add: polls' field)
  note other = poll_done_iff_match [of 0 ?t "example_args ''status'' ''complete''" "JObj []"
      fresh_session _ JNull]
  have c6: "\<not> (\<exists>view s'. poll_loop ?t (example_args ''status'' ''complete'') 0 (JObj []) JNull
      fresh_session = (Returned (Done view 1), s'))"
    using other status_attempt [of 10 "example_args ''status'' ''complete''" "JObj []"
        fresh_session]
    by (simp add: polls' field)
  show ?thesis
    using ok val ne c1 c2 c3 c4 c5 c6 exec polls
      no_field_attempt(3) [of 10 ?am "JObj []" fresh_session]
      status_attempt(2) [of 10 "example_args ''status'' ''COMPLETED''" "JObj []" fresh_session]
      status_attempt(3) [of 10 "example_args ''done'' ''TRUE''" "JObj []" fresh_session]
    by simp
qed

text \<open>
  The claim C1 as first stated fails on a first attempt that finds nothing at
  \<^verbatim>\<open>done_field\<close> while \<^verbatim>\<open>done_value\<close> is \<^verbatim>\<open>None\<close>: the lowercased string forms are equal, both
  \<^verbatim>\<open>none\<close>, and the machine ends \<open>FieldMissing\<close>, not \<open>Done\<close>, because the check of the first
  response comes before the comparison.
\<close>

theorem poll_first_attempt_missing_not_done:
  "truthy (dict_get (attempt_response (example_deps no_field_mock 10)
        (example_args ''polling.completed'' ''None'') (JObj []) fresh_session) ''success'')
   \<and> get_nested_value (attempt_data (example_deps no_field_mock 10)
        (example_args ''polling.completed'' ''None'') (JObj []) fresh_session)
        ''polling.completed'' = Inr JNull
   \<and> lower (py_str JNull) = lower ''None''
   \<and> poll_loop (example_deps no_field_mock 10) (example_args ''polling.completed'' ''None'')
        0 (JObj []) JNull fresh_session
      = (Returned (FieldMissing (field_missing_error ''polling.completed''
           (JObj [(''status'', JStr ''pending''), (''results'', JArr [])]))),
         attempt_logged (example_args ''polling.completed'' ''None'') 1 (JObj []) fresh_session)
   \<and> \<not> (\<exists>view k s'. poll_loop (example_deps no_field_mock 10)
          (example_args ''polling.completed'' ''None'') 0 (JObj []) JNull fresh_session
        = (Returned (Done view k), s'))"
proof -
  let ?d = "example_deps no_field_mock 10"
  let ?a = "example_args ''polling.completed'' ''None''"
  have polls: "0 < MAX_POLLS ?d" by (simp add: example_deps_def)
  have field: "p_done_field ?a = ''polling.completed''" by (simp add: example_args_def)
  note at = no_field_attempt [of 10 ?a "JObj []" fresh_session]
  have run: "poll_loop ?d ?a 0 (JObj []) JNull fresh_session
      = (Returned (FieldMissing (field_missing_error ''polling.completed''
           (JObj [(''status'', JStr ''pending''), (''results'', JArr [])]))),
         attempt_logged ?a 1 (JObj []) fresh_session)"
    using poll_loop_stop [where n = 0 and d = ?d and a = ?a and body = "JObj []"
        and s = fresh_session and cur = JNull]
      poll_attempt_missing [of ?d ?a "JObj []" fresh_session] polls at
    by (simp add: field)
  show ?thesis
    using at(1,3) run by simp
qed

lemma no_field_repr:
  "field_missing_error ''polling.completed''
     (JObj [(''status'', JStr ''pending''), (''results'', JArr [])])
   = ''done_field '' @ [CHR 0x27] @ ''polling.completed'' @ [CHR 0x27]
       @ '' not found in response. Available keys: ['' @ [CHR 0x27] @ ''status'' @ [CHR 0x27]
       @ '', '' @ [CHR 0x27] @ ''results'' @ [CHR 0x27] @ '']''"
  by code_simp

theorem poll_field_missing_first_only_witness:
  "0 < MAX_POLLS (example_deps no_field_mock 10)
   \<and> truthy (dict_get (attempt_response (example_deps no_field_mock 10)
        (example_args ''polling.completed'' ''true'') (JObj []) fresh_session) ''success'')
   \<and> get_nested_value (attempt_data (example_deps no_field_mock 10)
        (example_args ''polling.completed'' ''true'') (JObj []) fresh_session)
        ''polling.completed'' = Inr JNull
   \<and> poll_loop (example_deps no_field_mock 10) (example_args ''polling.completed'' ''true'')
        0 (JObj []) JNull fresh_session
      = (Returned (FieldMissing
           (''done_field '' @ [CHR 0x27] @ ''polling.completed'' @ [CHR 0x27]
              @ '' not found in response. Available keys: ['' @ [CHR 0x27] @ ''status''
              @ [CHR 0x27] @ '', '' @ [CHR 0x27] @ ''results'' @ [CHR 0x27] @ '']'')),
         attempt_logged (example_args ''polling.completed'' ''true'') 1 (JObj []) fresh_session)
   \<and> (0::int) < 1
   \<and> fst (poll_loop (example_deps no_field_mock 10) (example_args ''polling.completed'' ''true'')
        1 (JObj []) JNull fresh_session) \<noteq> Returned (FieldMissing [])"
proof -
  let ?d = "example_deps no_field_mock 10"
  let ?a = "example_args ''polling.completed'' ''true''"
  have polls: "MAX_POLLS ?d = 10" by (simp add: example_deps_def)
  have field: "p_done_field ?a = ''polling.completed''" by (simp add: example_args_def)
  have ok: "truthy (dict_get (attempt_response ?d ?a (JObj []) fresh_session) ''success'')"
    by (simp add: attempt_response_def example_deps_def no_field_mock_def dict_get_def
          dict_get_default_def)
  have data: "attempt_data ?d ?a (JObj []) fresh_session
      = JObj [(''status'', JStr ''pending''), (''results'', JArr [])]"
    by (simp add: attempt_data_def attempt_response_def example_deps_def no_field_mock_def
          dict_get_default_def)
  have val: "get_nested_value (attempt_data ?d ?a (JObj []) fresh_session) ''polling.completed''
      = Inr JNull"
    by (simp add: data get_nested_value_def dict_get_def dict_get_default_def)
  note inst = poll_field_missing_first_only [of ?d ?a "JObj []" fresh_session JNull 1 "[]"]
  have first: "poll_loop ?d ?a 0 (JObj []) JNull fresh_session
      = (Returned (FieldMissing
           (field_missing_error ''polling.completed''
              (JObj [(''status'', JStr ''pending''), (''results'', JArr [])]))),
         attempt_logged ?a 1 (JObj []) fresh_session)"
    using conjunct1 [OF inst] ok val by (simp add: polls field data)
  have later: "fst (poll_loop ?d ?a 1 (JObj []) JNull fresh_session) \<noteq> Returned (FieldMissing [])"
    using conjunct1 [OF conjunct2 [OF inst]] by simp
  show ?thesis
    using ok val first later by (simp add: polls no_field_repr)
qed

lemma lower_done: "lower ''done'' = ''done''"
  by code_simp

theorem poll_missing_after_first_witness:
  "(0::int) < 1
   \<and> 1 < MAX_POLLS (example_deps vanishing_mock 10)
   \<and> truthy (dict_get (attempt_response (example_deps vanishing_mock 10)
        (example_args ''state'' ''None'') (JObj [])
        (sleep 1 (attempt_logged (example_args ''state'' ''None'') 1 (JObj []) fresh_session)))
        ''success'')
   \<and> get_nested_value (attempt_data (example_deps vanishing_mock 10)
        (example_args ''state'' ''None'') (JObj [])
        (sleep 1 (attempt_logged (example_args ''state'' ''None'') 1 (JObj []) fresh_session)))
        ''state'' = Inr JNull
   \<and> lower ''None'' = ''none''
   \<and> fst (poll_loop (example_deps vanishing_mock 10) (example_args ''state'' ''None'') 1
        (JObj []) (JStr ''running'')
        (sleep 1 (attempt_logged (example_args ''state'' ''None'') 1 (JObj []) fresh_session)))
      = Returned (Done
          (truncate_for_context (example_deps vanishing_mock 10)
             (as_rows (JObj [(''id'', JInt 7)])) ''poll_result'') 2)
   \<and> lower ''done'' \<noteq> ''none''
   \<and> poll_loop (example_deps vanishing_mock 10) (example_args ''state'' ''done'') 1
        (JObj []) (JStr ''running'')
        (sleep 1 (attempt_logged (example_args ''state'' ''done'') 1 (JObj []) fresh_session))
      = poll_loop (example_deps vanishing_mock 10) (example_args ''state'' ''done'') 2
          (JObj []) JNull
          (sleep 1 (attempt_logged (example_args ''state'' ''done'') 2 (JObj [])
             (sleep 1 (attempt_logged (example_args ''state'' ''done'') 1 (JObj [])
                fresh_session))))"
proof -
  let ?d = "example_deps vanishing_mock 10"
  have polls: "MAX_POLLS ?d = 10" by (simp add: example_deps_def)
  have later: "truthy (dict_get (attempt_response ?d (example_args ''state'' x) (JObj [])
        (sleep 1 (attempt_logged (example_args ''state'' x) 1 (JObj []) fresh_session)))
        ''success'')
    \<and> attempt_data ?d (example_args ''state'' x) (JObj [])
        (sleep 1 (attempt_logged (example_args ''state'' x) 1 (JObj []) fresh_session))
      = JObj [(''id'', JInt 7)]" for x
    by (simp add: attempt_response_def attempt_data_def example_deps_def vanishing_mock_def
          dict_get_def dict_get_default_def sleep_fields attempt_logged_fields requests_append)
  have missing: "get_nested_value (JObj [(''id'', JInt 7)]) ''state'' = Inr JNull"
    by (simp add: get_nested_value_def dict_get_def dict_get_default_def)
  have field: "p_done_field (example_args ''state'' x) = ''state''"
    "p_done_value (example_args ''state'' x) = x" "p_name (example_args ''state'' x) = ''poll_result''"
    "p_wait_ms (example_args ''state'' x) = 1" for x
    by (simp_all add: example_args_def)
  note none = poll_missing_after_first [where n = 1 and d = ?d
      and a = "example_args ''state'' ''None''" and body = "JObj []"
      and s = "sleep 1 (attempt_logged (example_args ''state'' ''None'') 1 (JObj []) fresh_session)"
      and err = "[]" and cur = "JStr ''running''"]
  note other = poll_missing_after_first [where n = 1 and d = ?d
      and a = "example_args ''state'' ''done''" and body = "JObj []"
      and s = "sleep 1 (attempt_logged (example_args ''state'' ''done'') 1 (JObj []) fresh_session)"
      and err = "[]" and cur = "JStr ''running''"]
  have r1: "fst (poll_loop ?d (example_args ''state'' ''None'') 1 (JObj []) (JStr ''running'')
        (sleep 1 (attempt_logged (example_args ''state'' ''None'') 1 (JObj []) fresh_session)))
      = Returned (Done (truncate_for_context ?d (as_rows (JObj [(''id'', JInt 7)]))
          ''poll_result'') 2)"
    using none later [of "''None''"] missing
    by (simp add: polls field lower_None)
  have r2: "poll_loop ?d (example_args ''state'' ''done'') 1 (JObj []) (JStr ''running'')
        (sleep 1 (attempt_logged (example_args ''state'' ''done'') 1 (JObj []) fresh_session))
      = poll_loop ?d (example_args ''state'' ''done'') 2 (JObj []) JNull
          (sleep 1 (attempt_logged (example_args ''state'' ''done'') 2 (JObj [])
             (sleep 1 (attempt_logged (example_args ''state'' ''done'') 1 (JObj [])
                fresh_session))))"
    using other later [of "''done''"] missing
    by (simp add: polls field lower_done bump_empty)
  show ?thesis
    using later [of "''None''"] missing r1 r2
    by (simp add: polls lower_None lower_done)
qed

lemma count_body_parts:
  "count_body = JObj [(''polling'', JObj [(''count'', JInt 1)])]"
  "map_of [(''polling'', JObj [(''count'', JInt 1)])] ''polling'' = Some (JObj [(''count'', JInt 1)])"
  "map_of [(''count'', JInt 1)] ''count'' = Some (JInt 1)"
  by (simp_all add: count_body_def)

lemma count_body_count: "get_nested_value count_body ''polling.count'' = Inr (JInt 1)"
  by (simp add: count_body_def get_nested_value_def dict_get_def dict_get_default_def)

lemma completed_attempt:
  assumes "execute_request d = completed_mock"
  shows "truthy (dict_get (attempt_response d a body s) ''success'')"
    and "get_nested_value (attempt_data d a body s) ''polling.completed''
         = Inr (JBool (3 \<le> length (requests (trace s)) + 1))"
  using assms
  by (simp_all add: attempt_response_def attempt_data_def completed_mock_def dict_get_def
        dict_get_default_def get_nested_value_def)

lemma completed_run:
  assumes exec: "execute_request d = completed_mock" and polls: "3 \<le> MAX_POLLS d"
    and a: "p_done_field a = ''polling.completed''" "p_done_value a = ''true''"
    and s: "requests (trace s) = []"
  shows "\<exists>view s'. poll_loop d a 0 count_body JNull s = (Returned (Done view 3), s')
      \<and> length (requests (trace s')) = length (requests (trace s)) + 3"
proof -
  note facts = with_polling_count_facts [OF count_body_parts]
  define b1 where "b1 = with_polling_count 2 count_body"
  define b2 where "b2 = with_polling_count 3 count_body"
  define s1 where "s1 = sleep (p_wait_ms a) (attempt_logged a 1 count_body s)"
  define s2 where "s2 = sleep (p_wait_ms a) (attempt_logged a 2 b1 s1)"
  define s3 where "s3 = store_tables
      (fst (extract_tables_from_response d (attempt_data d a b2 s2) (p_name a)))
      (p_name a) (attempt_logged a 3 b2 s2)"
  have bump0: "bump_polling_count count_body = Inr b1"
    using facts(1) by (simp add: b1_def)
  have bump1: "bump_polling_count b1 = Inr b2"
    using facts(6) [of 2] by (simp add: b1_def b2_def)
  have r1: "length (requests (trace s1)) = 1"
    using s by (simp add: s1_def sleep_fields attempt_logged_fields requests_append)
  have r2: "length (requests (trace s2)) = 2"
    using r1 by (simp add: s2_def sleep_fields attempt_logged_fields requests_append)
  have r3: "length (requests (trace s3)) = 3"
    using r2 by (simp add: s3_def store_tables_fields attempt_logged_fields requests_append)
  have step1: "poll_attempt d a 1 count_body s = (Next b1 (JBool False), s1)"
    using poll_attempt_pending [of d a count_body s "JBool False" 1]
      completed_attempt [OF exec, of a count_body s] a s
    by (simp add: s1_def bump0 lower_bools)
  have step2: "poll_attempt d a 2 b1 s1 = (Next b2 (JBool False), s2)"
    using poll_attempt_pending [of d a b1 s1 "JBool False" 2]
      completed_attempt [OF exec, of a b1 s1] a r1
    by (simp add: s2_def bump1 lower_bools)
  have step3: "poll_attempt d a 3 b2 s2
      = (Stop (Returned (Done (truncate_for_context d (as_rows (attempt_data d a b2 s2))
           (p_name a)) 3)), s3)"
    using poll_attempt_done [of d a b2 s2 "JBool True" 3]
      completed_attempt [OF exec, of a b2 s2] a r2
    by (simp add: s3_def lower_bools)
  have "poll_loop d a 0 count_body JNull s = poll_loop d a 1 b1 (JBool False) s1"
    using poll_loop_next [where n = 0 and d = d and a = a and cur = JNull] polls step1
    by simp
  also have "\<dots> = poll_loop d a 2 b2 (JBool False) s2"
    using poll_loop_next [where n = 1 and d = d and a = a and cur = "JBool False"] polls step2
    by simp
  also have "\<dots> = (Returned (Done (truncate_for_context d (as_rows (attempt_data d a b2 s2))
           (p_name a)) 3), s3)"
    using poll_loop_stop [where n = 2 and d = d and a = a and cur = "JBool False"] polls step3
    by simp
  finally show ?thesis using r3 s by simp
qed

lemma loads_count_body:
  "loads_or (example_deps exec k) (json_dumps count_body) dflt = Inr count_body"
  by (simp add: loads_or_def example_deps_def example_loads_def)
    (simp add: count_body_def dumps_str_def)

lemma query_body_count: "get_nested_value query_body ''polling.count'' = Inr JNull"
  by (simp add: query_body_def get_nested_value_def dict_get_def dict_get_default_def)

lemma query_body_bump: "bump_polling_count query_body = Inr query_body"
  by (simp add: query_body_def bump_polling_count_def dict_get_def dict_get_default_def)

theorem poll_auto_increment_witness:
  "get_nested_value count_body ''polling.count'' = Inr (JInt 1)
   \<and> bump_polling_count count_body = Inr (with_polling_count 2 count_body)
   \<and> map (\<lambda>r. get_nested_value (req_body r) ''polling.count'')
        (requests (trace (snd (poll_until_done (example_deps completed_mock 10) ''POST''
           ''/search/flights'' ''polling.completed'' ''true'' (json_dumps count_body) [] []
           ''poll_result'' 1 fresh_session))))
      = [Inr (JInt 1), Inr (JInt 2), Inr (JInt 3)]
   \<and> get_nested_value query_body ''polling.count'' = Inr JNull
   \<and> bump_polling_count query_body = Inr query_body
   \<and> (\<exists>new. trace (snd (poll_loop (example_deps completed_mock 10)
          (example_args ''polling.completed'' ''true'') 0 query_body JNull fresh_session))
          = trace fresh_session @ new
        \<and> alternates new
        \<and> list_all (\<lambda>r. req_body r = query_body) (requests new))"
proof -
  let ?d = "example_deps completed_mock 10"
  let ?a = "example_args ''polling.completed'' ''true''"
  have exec: "execute_request ?d = completed_mock" and polls: "3 \<le> MAX_POLLS ?d"
    by (simp_all add: example_deps_def)
  have field: "p_done_field ?a = ''polling.completed''" "p_done_value ?a = ''true''"
    by (simp_all add: example_args_def)
  have fresh: "requests (trace fresh_session) = []" "trace fresh_session = []"
    by (simp_all add: fresh_session_def)
  have entry: "poll_until_done ?d ''POST'' ''/search/flights'' ''polling.completed'' ''true''
        (json_dumps count_body) [] [] ''poll_result'' 1 fresh_session
      = poll_loop ?d ?a 0 count_body JNull fresh_session"
  proof -
    have empty: "loads_or ?d [] JNull = Inr JNull"
      by (simp add: loads_or_def)
    show ?thesis
      by (simp add: poll_until_done_def loads_count_body empty example_args_def)
  qed
  obtain view s' where run: "poll_loop ?d ?a 0 count_body JNull fresh_session
      = (Returned (Done view 3), s')" "length (requests (trace s')) = 3"
    using completed_run [OF exec polls field fresh(1)] fresh by auto
  note inst = poll_auto_increment [of count_body 1 ?d ?a 0 JNull fresh_session]
  have "\<exists>new. trace (snd (poll_loop ?d ?a 0 count_body JNull fresh_session))
        = trace fresh_session @ new
      \<and> alternates new
      \<and> map req_body (requests new)
          = map (\<lambda>i. with_polling_count (1 + int i) count_body) [0..<length (requests new)]"
    using conjunct1 [OF inst] count_body_count by blast
  then have bodies: "map req_body (requests (trace s'))
      = map (\<lambda>i. with_polling_count (1 + int i) count_body) [0..<3]"
    using run fresh by auto
  have three: "[0..<3] = [0, 1, 2]"
    by (simp add: upt_rec)
  have counts: "get_nested_value (with_polling_count c count_body) ''polling.count''
      = Inr (JInt c)" for c
    using with_polling_count_facts(5) [OF count_body_parts] .
  have "map (\<lambda>r. get_nested_value (req_body r) ''polling.count'') (requests (trace s'))
      = map (\<lambda>b. get_nested_value b ''polling.count'') (map req_body (requests (trace s')))"
    by simp
  also have "\<dots> = [Inr (JInt 1), Inr (JInt 2), Inr (JInt 3)]"
    by (simp only: bodies three) (simp add: counts)
  finally have sent: "map (\<lambda>r. get_nested_value (req_body r) ''polling.count'')
        (requests (trace (snd (poll_until_done ?d ''POST''
           ''/search/flights'' ''polling.completed'' ''true'' (json_dumps count_body) [] []
           ''poll_result'' 1 fresh_session))))
      = [Inr (JInt 1), Inr (JInt 2), Inr (JInt 3)]"
    using entry run by simp
  have bump: "bump_polling_count count_body = Inr (with_polling_count 2 count_body)"
    using conjunct1 [OF inst] count_body_count by simp
  note plain = poll_auto_increment [of query_body 0 ?d ?a 0 JNull fresh_session]
  have "\<exists>new. trace (snd (poll_loop ?d ?a 0 query_body JNull fresh_session))
        = trace fresh_session @ new
      \<and> alternates new
      \<and> (\<forall>r \<in> set (requests new). r = poll_request ?a query_body)"
    using conjunct2 [OF plain] query_body_count by blast
  then obtain new where new:
    "trace (snd (poll_loop ?d ?a 0 query_body JNull fresh_session)) = trace fresh_session @ new"
    "alternates new" "\<forall>r \<in> set (requests new). r = poll_request ?a query_body"
    by blast
  have sent_body: "req_body (poll_request ?a query_body) = query_body"
    by (simp add: poll_request_def query_body_def)
  have "list_all (\<lambda>r. req_body r = query_body) (requests new)"
    unfolding list_all_iff using new(3) sent_body by metis
  then have same: "\<exists>new. trace (snd (poll_loop ?d ?a 0 query_body JNull fresh_session))
        = trace fresh_session @ new
      \<and> alternates new
      \<and> list_all (\<lambda>r. req_body r = query_body) (requests new)"
    using new(1,2) by blast
  show ?thesis
    using count_body_count bump sent query_body_count query_body_bump same by simp
qed

subsection \<open>GraphQL type-reference folding\<close>

lemma format_type_encode: "well_named t \<Longrightarrow> format_type (encode t) = render t"
  by (induction t) simp_all

text \<open>
  Claim C9. The renderer gives a bare named type its name, adds a trailing \<open>!\<close> for
  every \<open>NON_NULL\<close> wrapper and surrounding brackets for every \<open>LIST\<close> wrapper, through
  any nesting of \<open>ofType\<close>; an absent or empty reference is \<open>?\<close>; and
  \<open>NON_NULL(LIST(NON_NULL(LIST(NON_NULL(X)))))\<close> is \<open>[[X!]!]!\<close>.
\<close>

theorem format_type_folds:
  "(well_named t \<longrightarrow> format_type (encode t) = render t)
   \<and> format_type NoRef = ''?''
   \<and> format_type (Ref k None NoRef) = (if k = Some ''NON_NULL'' then ''?!''
        else if k = Some ''LIST'' then ''[?]'' else ''?'')
   \<and> format_type (Ref (Some ''NON_NULL'') n inner) = format_type inner @ ''!''
   \<and> format_type (Ref (Some ''LIST'') n inner) = ''['' @ format_type inner @ '']''
   \<and> format_type (encode (NonNull (ListOf (NonNull (ListOf (NonNull
        (Named ''SCALAR'' ''X''))))))) = ''[[X!]!]!''"
  by (simp add: format_type_encode)

theorem format_type_folds_witness:
  "well_named (NonNull (ListOf (Named ''OBJECT'' ''User'')))
   \<and> format_type (Ref (Some ''NON_NULL'') None
        (Ref (Some ''LIST'') None (Ref (Some ''OBJECT'') (Some ''User'') NoRef))) = ''[User]!''"
  using format_type_folds [of "NonNull (ListOf (Named ''OBJECT'' ''User''))"]
  by simp

end
